theory Spec2Isabelle
  imports Main "HOL-Library.Word" "HOL-Library.Finite_Map" "HOL-Library.Multiset"
begin

section \<open>Values of the storage layer\<close>

text \<open>
  The embedding follows \<^verbatim>\<open>core/storage/mongoStorage.go\<close> (package storage) and
  \<^verbatim>\<open>core/dataURI/dataURI.go\<close> (package dataURI). Go's \<^verbatim>\<open>int64\<close>, \<^verbatim>\<open>int32\<close> and
  \<^verbatim>\<open>uint32\<close> are machine words; \<^verbatim>\<open>len\<close> of a slice is a natural number. A Go
  \<^verbatim>\<open>string\<close> is a \<^typ>\<open>string\<close>.
\<close>

type_synonym byte = "8 word"
type_synonym int32 = "32 word"
type_synonym uint32 = "32 word"
type_synonym int64 = "64 word"

text \<open>
  The errors of the mgo driver that the storage code tells apart. A panic of the driver
  is a result too (\<open>ErrPanic\<close>), so that it is a branch of the model: the call that
  meets it does not return normally.
\<close>

datatype mgoError =
    ErrNotFound
  | ErrDup
  | ErrBackend string
  | ErrPanic string

text \<open>
  \<^verbatim>\<open>common.SyncServiceError\<close>: one constructor per error type of the source. The
  message is the format string of the source; its arguments are not rendered.
  \<open>Panic\<close> stands for a Go panic (of the driver, or of \<^verbatim>\<open>make\<close> with a negative
  length): the call does not return.
\<close>

datatype SyncServiceError =
    Error string
  | Discarded string
  | IOError string
  | URIError string
  | CreatedError string
  | Panic string

text \<open>
  Package \<^verbatim>\<open>time\<close> as one call sees it: \<^verbatim>\<open>time.Now()\<close> in nanoseconds since the
  epoch, and \<^verbatim>\<open>Time.Format(time.RFC3339)\<close> of a time given in nanoseconds.
\<close>

record clock =
  nowNanos :: int
  formatRFC3339 :: "int \<Rightarrow> string"

definition UnixNano :: "clock \<Rightarrow> int64" where
  "UnixNano clk = word_of_int (nowNanos clk)"

definition Unix :: "clock \<Rightarrow> int64" where
  "Unix clk = word_of_int (nowNanos clk div 1000000000)"

definition Hour :: int where
  "Hour = 3600 * 1000000000"

text \<open>The fields of \<^verbatim>\<open>common.Configuration\<close> that the modelled functions read.\<close>

record Configuration =
  LeadershipTimeout :: int32
  ResendInterval :: int

subsection \<open>Constants of package common\<close>

text \<open>
  Modelled from the spec: the string constants of package \<^verbatim>\<open>common\<close> are not part of
  the sources at hand. The spec names them (section 3) and gives the literals
  \<^verbatim>\<open>"ready"\<close> and \<^verbatim>\<open>"consumed"\<close>; the proofs use only that they are pairwise distinct and
  not empty.
\<close>

definition NotReadyToSend :: string where "NotReadyToSend = ''notReady''"
definition ReadyToSend :: string where "ReadyToSend = ''ready''"
definition PartiallyReceived :: string where "PartiallyReceived = ''partiallyreceived''"
definition CompletelyReceived :: string where "CompletelyReceived = ''completelyReceived''"
definition ObjReceived :: string where "ObjReceived = ''objreceived''"
definition ObjDeleted :: string where "ObjDeleted = ''objdeleted''"

definition Pending :: string where "Pending = ''pending''"
definition Delivering :: string where "Delivering = ''delivering''"
definition Delivered :: string where "Delivered = ''delivered''"
definition Consumed :: string where "Consumed = ''consumed''"
definition common_Error :: string where "common_Error = ''error''"

definition Update :: string where "Update = ''update''"
definition UpdatePending :: string where "UpdatePending = ''updatePending''"
definition Updated :: string where "Updated = ''updated''"
definition Received :: string where "Received = ''received''"
definition ConsumedPending :: string where "ConsumedPending = ''consumedPending''"
definition Delete :: string where "Delete = ''delete''"
definition DeletePending :: string where "DeletePending = ''deletePending''"
definition Deleted :: string where "Deleted = ''deleted''"
definition DeletedPending :: string where "DeletedPending = ''deletedPending''"
definition Getdata :: string where "Getdata = ''getdata''"
definition Data :: string where "Data = ''data''"
definition ReceivedByDestination :: string where "ReceivedByDestination = ''receivedByDest''"
definition ConsumedByDestination :: string where "ConsumedByDestination = ''consumedByDest''"

subsection \<open>Documents\<close>

text \<open>
  Modelled from the spec: the structs \<^verbatim>\<open>common.MetaData\<close>, \<^verbatim>\<open>common.Destination\<close>,
  \<^verbatim>\<open>common.StoreDestinationStatus\<close> and \<^verbatim>\<open>common.Notification\<close> are declared outside
  the sources at hand; their fields are those of the data model (spec section 3) that
  the storage code reads and writes.
\<close>

record MetaData =
  ObjectID :: string
  ObjectType :: string
  DestOrgID :: string
  DestType :: string
  DestID :: string
  InstanceID :: int64
  ExpectedConsumers :: int
  Inactive :: bool
  NoData :: bool
  MetaOnly :: bool
  AutoDelete :: bool
  ActivationTime :: string
  Expiration :: string
  ObjectSize :: int64
  Deleted_flag :: bool

record Destination =
  DestOrgID :: string
  DestType :: string
  DestID :: string
  Communication :: string

record StoreDestinationStatus =
  Destination :: Destination
  Status :: string
  Message :: string

record Notification =
  ObjectID :: string
  ObjectType :: string
  DestOrgID :: string
  DestID :: string
  DestType :: string
  Status :: string
  InstanceID :: int64
  ResendTime :: int64

text \<open>The documents of the collections, as \<^verbatim>\<open>mongoStorage.go\<close> declares them.\<close>

record object =
  ID :: string
  MetaData :: MetaData
  Status :: string
  RemainingConsumers :: int
  RemainingReceivers :: int
  Destinations :: "StoreDestinationStatus list"
  LastUpdate :: int

record destinationObject =
  ID :: string
  Destination :: Destination

record notificationObject =
  ID :: string
  Notification :: Notification

record leaderDocument =
  ID :: int32
  UUID :: string
  LastHeartbeatTS :: int
  HeartbeatTimeout :: int32
  Version :: int64

definition maxUpdateTries :: nat where
  "maxUpdateTries = 5"

section \<open>The state: database, blob store and open file handles\<close>

text \<open>
  Modelled from the spec: \<^verbatim>\<open>mgo.GridFile\<close> belongs to the driver. A file opened by
  \<^verbatim>\<open>createFile\<close> collects the bytes written to it and becomes the published blob of
  its id when it is closed (spec 4.1: a write is not visible until the publish step);
  a file opened by \<^verbatim>\<open>openFile\<close> holds the published content and a read position.
\<close>

record GridFile =
  gfId :: string
  gfWriting :: bool
  gfData :: "byte list"
  gfPos :: nat

text \<open>
  \<^verbatim>\<open>fileHandle\<close> of the source, without the driver session. \<^verbatim>\<open>chunks\<close> is a Go map
  that may be \<^verbatim>\<open>nil\<close>: \<^term>\<open>None\<close> is the nil map.
\<close>

record fileHandle =
  gfile :: GridFile
  offset :: int64
  chunks :: "(int64, byte list) fmap option"

text \<open>
  The collections of the database (each keyed by \<^verbatim>\<open>_id\<close> where the modelled code
  reaches documents by id, a list where it scans), the published blobs, the server's
  timestamp counter behind \<^verbatim>\<open>$currentDate\<close>, a fault switch (\<^term>\<open>Some e\<close>: the
  backend is unreachable and every operation on it fails with \<^term>\<open>ErrBackend e\<close>),
  and the process-local map \<^verbatim>\<open>MongoStorage.openFiles\<close>.
\<close>

record store =
  objects :: "string \<rightharpoonup> object"
  destinations :: "destinationObject list"
  notifications :: "notificationObject list"
  leader :: "int32 \<rightharpoonup> leaderDocument"
  gridFS :: "string \<rightharpoonup> byte list"
  serverClock :: int
  dbFault :: "string option"
  openFiles :: "string \<rightharpoonup> fileHandle"

subsection \<open>Collection ids\<close>

text \<open>
  Modelled from the spec: \<^verbatim>\<open>createObjectCollectionID\<close> and
  \<^verbatim>\<open>getObjectCollectionID\<close> are not in the sources at hand; spec section 3 gives the key
  as \<^verbatim>\<open>orgID ":" objectType ":" objectID\<close>.
\<close>

definition createObjectCollectionID :: "string \<Rightarrow> string \<Rightarrow> string \<Rightarrow> string" where
  "createObjectCollectionID orgID objectType objectID =
     orgID @ '':'' @ objectType @ '':'' @ objectID"

definition getObjectCollectionID :: "MetaData \<Rightarrow> string" where
  "getObjectCollectionID metaData =
     createObjectCollectionID (MetaData.DestOrgID metaData) (MetaData.ObjectType metaData)
       (MetaData.ObjectID metaData)"

subsection \<open>Database helpers\<close>

text \<open>
  Modelled from the spec: the helpers \<^verbatim>\<open>fetchOne\<close>, \<^verbatim>\<open>fetchAll\<close>, \<^verbatim>\<open>update\<close>,
  \<^verbatim>\<open>upsert\<close> and \<^verbatim>\<open>insert\<close> of \<^verbatim>\<open>MongoStorage\<close> are not in the sources at hand.
  Spec section 4.2: FetchOne returns NotFound when absent; Update is a conditional
  update that returns NotFound if the filter does not match; Upsert inserts if no
  document matches the filter and replaces otherwise; an insert of an existing
  \<^verbatim>\<open>_id\<close> is a duplicate-key error. A filter is a predicate on the document with the
  given \<^verbatim>\<open>_id\<close>; a mutation is a function of the server timestamp (for
  \<^verbatim>\<open>$currentDate\<close>) and the document. A projection only limits which fields are
  decoded, and the modelled functions read projected fields only, so \<^verbatim>\<open>fetchOne\<close>
  returns the document.
\<close>

definition fetchOne_objects :: "store \<Rightarrow> string \<Rightarrow> mgoError + object" where
  "fetchOne_objects s docId =
     (case dbFault s of
        Some e \<Rightarrow> Inl (ErrBackend e)
      | None \<Rightarrow> (case objects s docId of None \<Rightarrow> Inl ErrNotFound | Some ob \<Rightarrow> Inr ob))"

definition update_objects ::
  "store \<Rightarrow> string \<Rightarrow> (object \<Rightarrow> bool) \<Rightarrow> (int \<Rightarrow> object \<Rightarrow> object) \<Rightarrow> mgoError option \<times> store" where
  "update_objects s docId matches mutation =
     (case dbFault s of
        Some e \<Rightarrow> (Some (ErrBackend e), s)
      | None \<Rightarrow>
          (case objects s docId of
             None \<Rightarrow> (Some ErrNotFound, s)
           | Some ob \<Rightarrow>
               if matches ob
               then (None, s\<lparr>objects := (objects s)(docId \<mapsto> mutation (serverClock s + 1) ob),
                              serverClock := serverClock s + 1\<rparr>)
               else (Some ErrNotFound, s)))"

definition upsert_objects ::
  "store \<Rightarrow> string \<Rightarrow> (object \<Rightarrow> bool) \<Rightarrow> object \<Rightarrow> mgoError option \<times> store" where
  "upsert_objects s docId matches doc =
     (case dbFault s of
        Some e \<Rightarrow> (Some (ErrBackend e), s)
      | None \<Rightarrow>
          (case objects s docId of
             None \<Rightarrow> (None, s\<lparr>objects := (objects s)(docId \<mapsto> doc),
                                serverClock := serverClock s + 1\<rparr>)
           | Some ob \<Rightarrow>
               if matches ob
               then (None, s\<lparr>objects := (objects s)(docId \<mapsto> doc),
                              serverClock := serverClock s + 1\<rparr>)
               else (Some ErrDup, s)))"

definition fetchAll_destinations ::
  "store \<Rightarrow> (destinationObject \<Rightarrow> bool) \<Rightarrow> mgoError + destinationObject list" where
  "fetchAll_destinations s matches =
     (case dbFault s of
        Some e \<Rightarrow> Inl (ErrBackend e)
      | None \<Rightarrow> Inr (filter matches (destinations s)))"

definition fetchAll_notifications ::
  "store \<Rightarrow> (notificationObject \<Rightarrow> bool) \<Rightarrow> mgoError + notificationObject list" where
  "fetchAll_notifications s matches =
     (case dbFault s of
        Some e \<Rightarrow> Inl (ErrBackend e)
      | None \<Rightarrow> Inr (filter matches (notifications s)))"

definition insert_leader :: "store \<Rightarrow> leaderDocument \<Rightarrow> mgoError option \<times> store" where
  "insert_leader s doc =
     (case dbFault s of
        Some e \<Rightarrow> (Some (ErrBackend e), s)
      | None \<Rightarrow>
          (case leader s (leaderDocument.ID doc) of
             Some old \<Rightarrow> (Some ErrDup, s)
           | None \<Rightarrow> (None, s\<lparr>leader := (leader s)(leaderDocument.ID doc \<mapsto> doc),
                                serverClock := serverClock s + 1\<rparr>)))"

definition update_leader ::
  "store \<Rightarrow> int32 \<Rightarrow> (leaderDocument \<Rightarrow> bool) \<Rightarrow> (int \<Rightarrow> leaderDocument \<Rightarrow> leaderDocument)
     \<Rightarrow> mgoError option \<times> store" where
  "update_leader s docId matches mutation =
     (case dbFault s of
        Some e \<Rightarrow> (Some (ErrBackend e), s)
      | None \<Rightarrow>
          (case leader s docId of
             None \<Rightarrow> (Some ErrNotFound, s)
           | Some doc \<Rightarrow>
               if matches doc
               then (None, s\<lparr>leader := (leader s)(docId \<mapsto> mutation (serverClock s + 1) doc),
                              serverClock := serverClock s + 1\<rparr>)
               else (Some ErrNotFound, s)))"

text \<open>\<^verbatim>\<open>mgo.IsDup\<close>: the error is a duplicate-key error.\<close>

definition IsDup :: "mgoError \<Rightarrow> bool" where
  "IsDup err = (err = ErrDup)"

section \<open>Leader election\<close>

text \<open>\<^verbatim>\<open>InsertInitialLeader\<close>, \<^verbatim>\<open>LeaderPeriodicUpdate\<close> and \<^verbatim>\<open>UpdateLeader\<close>.\<close>

definition InsertInitialLeader ::
  "Configuration \<Rightarrow> string \<Rightarrow> store \<Rightarrow> (bool \<times> SyncServiceError option) \<times> store" where
  "InsertInitialLeader cfg leaderID s =
     (let doc = \<lparr>leaderDocument.ID = 1, UUID = leaderID, LastHeartbeatTS = 0,
                  HeartbeatTimeout = LeadershipTimeout cfg, Version = 1\<rparr>
      in case insert_leader s doc of
           (Some err, s') \<Rightarrow>
             if \<not> IsDup err
             then ((False, Some (Error ''Failed to insert document into syncLeaderElection collection. Error: %s'')), s')
             else ((False, None), s')
         | (None, s') \<Rightarrow> ((True, None), s'))"

definition LeaderPeriodicUpdate ::
  "string \<Rightarrow> store \<Rightarrow> (bool \<times> SyncServiceError option) \<times> store" where
  "LeaderPeriodicUpdate leaderID s =
     (case update_leader s 1 (\<lambda>doc. UUID doc = leaderID)
             (\<lambda>ts doc. doc\<lparr>LastHeartbeatTS := ts\<rparr>) of
        (Some err, s') \<Rightarrow>
          if ErrNotFound \<noteq> err
          then ((False, Some (Error ''Failed to update the document in the syncLeaderElection collection. Error: %s'')), s')
          else ((False, None), s')
      | (None, s') \<Rightarrow> ((True, None), s'))"

definition UpdateLeader ::
  "Configuration \<Rightarrow> string \<Rightarrow> int64 \<Rightarrow> store \<Rightarrow> (bool \<times> SyncServiceError option) \<times> store" where
  "UpdateLeader cfg leaderID version s =
     (case update_leader s 1 (\<lambda>doc. Version doc = version)
             (\<lambda>ts doc. doc\<lparr>LastHeartbeatTS := ts, UUID := leaderID,
                             HeartbeatTimeout := LeadershipTimeout cfg,
                             Version := version + 1\<rparr>) of
        (Some err, s') \<Rightarrow>
          if err \<noteq> ErrNotFound
          then ((False, Some (Error ''Failed to update the document in the syncLeaderElection collection. Error: %s'')), s')
          else ((False, None), s')
      | (None, s') \<Rightarrow> ((True, None), s'))"

text \<open>The version of the leader document, when there is one.\<close>

definition leaderVersion :: "store \<Rightarrow> int64 option" where
  "leaderVersion s = map_option Version (leader s 1)"

section \<open>Blobs, readers and file handles\<close>

text \<open>
  An \<^verbatim>\<open>io.Reader\<close> as the storage code uses it: a reader over bytes held in memory
  (one \<^verbatim>\<open>Read\<close> fills the buffer as far as the bytes reach and reports \<^verbatim>\<open>io.EOF\<close>
  only when there is nothing left), or a reader that fails.
\<close>

datatype ioError = EOF | ErrIO string | IOPanic string

datatype reader = BytesReader "byte list" | ErrReader string

text \<open>
  \<^verbatim>\<open>n, err = dataReader.Read(data)\<close> for a buffer of the given length: the buffer after
  the call, \<open>n\<close> and \<open>err\<close>.
\<close>

definition Reader_Read :: "reader \<Rightarrow> nat \<Rightarrow> byte list \<times> nat \<times> ioError option" where
  "Reader_Read r len =
     (case r of
        ErrReader e \<Rightarrow> (replicate len 0, 0, Some (ErrIO e))
      | BytesReader bs \<Rightarrow>
          if bs = [] \<and> 0 < len then (replicate len 0, 0, Some EOF)
          else (take len bs @ replicate (len - length bs) 0, min len (length bs), None))"

text \<open>\<^verbatim>\<open>data, err = ioutil.ReadAll(dataReader)\<close>, with \<^verbatim>\<open>n = len(data)\<close>.\<close>

definition ReadAll :: "reader \<Rightarrow> byte list \<times> nat \<times> ioError option" where
  "ReadAll r =
     (case r of
        ErrReader e \<Rightarrow> ([], 0, Some (ErrIO e))
      | BytesReader bs \<Rightarrow> (bs, length bs, None))"

subsection \<open>GridFS files\<close>

text \<open>
  Modelled from the spec: the methods of \<^verbatim>\<open>mgo.GridFile\<close> belong to the driver. Write
  appends to the staged bytes and reports their number; Close of a written file
  publishes it under its id (spec 4.1); Size, Seek and Read work on the published
  content. Each fails when the backend is unreachable. Write panics on a file that
  is not open for writing, Read on one that is not open for reading (the driver's
  \<^verbatim>\<open>assertMode\<close>).
\<close>

definition GridFile_Write ::
  "string option \<Rightarrow> GridFile \<Rightarrow> byte list \<Rightarrow> nat \<times> mgoError option \<times> GridFile" where
  "GridFile_Write fault f data =
     (if \<not> gfWriting f then (0, Some (ErrPanic ''GridFile is open for reading''), f)
      else case fault of
             Some e \<Rightarrow> (0, Some (ErrBackend e), f)
           | None \<Rightarrow> (length data, None, f\<lparr>gfData := gfData f @ data\<rparr>))"

definition GridFile_Close :: "store \<Rightarrow> GridFile \<Rightarrow> mgoError option \<times> store" where
  "GridFile_Close s f =
     (case dbFault s of
        Some e \<Rightarrow> (Some (ErrBackend e), s)
      | None \<Rightarrow>
          if gfWriting f then (None, s\<lparr>gridFS := (gridFS s)(gfId f \<mapsto> gfData f)\<rparr>)
          else (None, s))"

definition GridFile_Size :: "GridFile \<Rightarrow> int64" where
  "GridFile_Size f = of_nat (length (gfData f))"

definition GridFile_Seek :: "string option \<Rightarrow> GridFile \<Rightarrow> int64 \<Rightarrow> mgoError option \<times> GridFile" where
  "GridFile_Seek fault f pos =
     (case fault of
        Some e \<Rightarrow> (Some (ErrBackend e), f)
      | None \<Rightarrow>
          if sint pos < 0 \<or> int (length (gfData f)) < sint pos
          then (Some (ErrBackend ''seek out of range''), f)
          else (None, f\<lparr>gfPos := nat (sint pos)\<rparr>))"

definition GridFile_Read ::
  "string option \<Rightarrow> GridFile \<Rightarrow> nat \<Rightarrow> byte list \<times> nat \<times> ioError option" where
  "GridFile_Read fault f len =
     (if gfWriting f then (replicate len 0, 0, Some (IOPanic ''GridFile is open for writing''))
      else case fault of
             Some e \<Rightarrow> (replicate len 0, 0, Some (ErrIO e))
           | None \<Rightarrow>
               if length (gfData f) \<le> gfPos f then (replicate len 0, 0, Some EOF)
               else (let got = take len (drop (gfPos f) (gfData f))
                     in (got @ replicate (len - length got) 0, length got, None)))"

subsection \<open>Files and handles of the store\<close>

text \<open>
  Modelled from the spec: \<^verbatim>\<open>createFile\<close>, \<^verbatim>\<open>openFile\<close>, \<^verbatim>\<open>removeFile\<close>,
  \<^verbatim>\<open>storeDataInFile\<close>, \<^verbatim>\<open>copyDataToFile\<close>, \<^verbatim>\<open>getFileHandle\<close>, \<^verbatim>\<open>putFileHandle\<close>
  and \<^verbatim>\<open>deleteFileHandle\<close> are not in the sources at hand. Spec 4.3: a first chunk
  creates a fresh staging handle with offset 0; spec 4.1: Delete is idempotent and a
  missing blob is no error, Store is a single-shot write that publishes; spec 5:
  \<^verbatim>\<open>openFiles\<close> maps an object key to its handle, with pointer-level inserts, lookups
  and deletes.
\<close>

definition createFile :: "store \<Rightarrow> string \<Rightarrow> SyncServiceError + fileHandle" where
  "createFile s docId =
     (case dbFault s of
        Some e \<Rightarrow> Inl (Error ''Failed to create file. Error: %s.'')
      | None \<Rightarrow>
          Inr \<lparr>gfile = \<lparr>gfId = docId, gfWriting = True, gfData = [], gfPos = 0\<rparr>,
               offset = 0, chunks = None\<rparr>)"

definition openFile :: "store \<Rightarrow> string \<Rightarrow> mgoError + fileHandle" where
  "openFile s docId =
     (case dbFault s of
        Some e \<Rightarrow> Inl (ErrBackend e)
      | None \<Rightarrow>
          (case gridFS s docId of
             None \<Rightarrow> Inl ErrNotFound
           | Some content \<Rightarrow>
               Inr \<lparr>gfile = \<lparr>gfId = docId, gfWriting = False, gfData = content, gfPos = 0\<rparr>,
                    offset = 0, chunks = None\<rparr>))"

definition removeFile :: "store \<Rightarrow> string \<Rightarrow> SyncServiceError option \<times> store" where
  "removeFile s docId =
     (case dbFault s of
        Some e \<Rightarrow> (Some (Error ''Failed to delete file. Error: %s.''), s)
      | None \<Rightarrow> (None, s\<lparr>gridFS := (gridFS s)(docId := None)\<rparr>))"

definition storeDataInFile :: "store \<Rightarrow> string \<Rightarrow> byte list \<Rightarrow> SyncServiceError option \<times> store" where
  "storeDataInFile s docId data =
     (case dbFault s of
        Some e \<Rightarrow> (Some (Error ''Failed to store the data. Error: %s.''), s)
      | None \<Rightarrow> (None, s\<lparr>gridFS := (gridFS s)(docId \<mapsto> data)\<rparr>))"

definition getFileHandle :: "store \<Rightarrow> string \<Rightarrow> fileHandle option" where
  "getFileHandle s docId = openFiles s docId"

definition putFileHandle :: "store \<Rightarrow> string \<Rightarrow> fileHandle \<Rightarrow> store" where
  "putFileHandle s docId fH = s\<lparr>openFiles := (openFiles s)(docId \<mapsto> fH)\<rparr>"

definition deleteFileHandle :: "store \<Rightarrow> string \<Rightarrow> store" where
  "deleteFileHandle s docId = s\<lparr>openFiles := (openFiles s)(docId := None)\<rparr>"

text \<open>
  \<^verbatim>\<open>copyDataToFile(id, dataReader, isFirstChunk, isLastChunk)\<close>: takes the handle as
  a first chunk does (or the open one), copies the reader to the file, and on the
  last chunk closes the file and drops the handle. It returns the bytes written.
\<close>

definition copyDataToFile ::
  "store \<Rightarrow> string \<Rightarrow> reader \<Rightarrow> bool \<Rightarrow> bool \<Rightarrow> (SyncServiceError + fileHandle \<times> int64) \<times> store" where
  "copyDataToFile s docId dataReader isFirstChunk isLastChunk =
     (case (if isFirstChunk
            then (let s1 = snd (removeFile s docId)
                  in case createFile s1 docId of
                       Inl err \<Rightarrow> Inl (err, s1)
                     | Inr fh \<Rightarrow> Inr (fh, s1))
            else (case getFileHandle s docId of
                    None \<Rightarrow> Inl (Error ''Failed to append the data, the file doesn't exist.'', s)
                  | Some fh \<Rightarrow> Inr (fh, s))) of
        Inl (err, s1) \<Rightarrow> (Inl err, s1)
      | Inr (fh, s1) \<Rightarrow>
          (case ReadAll dataReader of
             (data, n, Some err) \<Rightarrow> (Inl (Error ''Failed to copy the data to the file. Error: %s.''), s1)
           | (data, n, None) \<Rightarrow>
               (case GridFile_Write (dbFault s1) (gfile fh) data of
                  (written, Some (ErrPanic msg), f') \<Rightarrow> (Inl (Panic msg), s1)
                | (written, Some err, f') \<Rightarrow>
                    (Inl (Error ''Failed to copy the data to the file. Error: %s.''), s1)
                | (written, None, f') \<Rightarrow>
                    (let fh' = fh\<lparr>gfile := f'\<rparr>
                     in if isLastChunk
                        then (case GridFile_Close (deleteFileHandle s1 docId) f' of
                                (Some err, s2) \<Rightarrow> (Inl (Error ''Failed to close the file. Error: %s.''), s2)
                              | (None, s2) \<Rightarrow> (Inr (fh', of_nat written), s2))
                        else (Inr (fh', of_nat written), putFileHandle s1 docId fh')))))"

section \<open>Delivery status of an object\<close>

text \<open>
  The \<^verbatim>\<open>for i, d := range result.Destinations\<close> loop of
  \<^verbatim>\<open>UpdateObjectDeliveryStatus\<close>, with its variables \<^verbatim>\<open>found\<close> and \<^verbatim>\<open>allConsumed\<close>:
  the first entry that matches the destination type and id gets the message and the
  status; every other entry clears \<^verbatim>\<open>allConsumed\<close> unless it is consumed.
\<close>

fun UpdateObjectDeliveryStatus_range ::
  "string \<Rightarrow> string \<Rightarrow> string \<Rightarrow> string \<Rightarrow> bool \<Rightarrow> bool \<Rightarrow> StoreDestinationStatus list
     \<Rightarrow> StoreDestinationStatus list \<times> bool \<times> bool" where
  "UpdateObjectDeliveryStatus_range status message destType destID found allConsumed [] =
     ([], found, allConsumed)"
| "UpdateObjectDeliveryStatus_range status message destType destID found allConsumed (d # ds) =
     (if \<not> found \<and> Destination.DestType (StoreDestinationStatus.Destination d) = destType
           \<and> Destination.DestID (StoreDestinationStatus.Destination d) = destID
      then
        (let d1 = (if message \<noteq> '''' \<or> StoreDestinationStatus.Status d = common_Error
                   then d\<lparr>Message := message\<rparr> else d);
             d2 = (if status \<noteq> '''' then d1\<lparr>StoreDestinationStatus.Status := status\<rparr> else d1);
             (ds', found', allConsumed') =
               UpdateObjectDeliveryStatus_range status message destType destID True allConsumed ds
         in (d2 # ds', found', allConsumed'))
      else
        (let (ds', found', allConsumed') =
               UpdateObjectDeliveryStatus_range status message destType destID found
                 (if StoreDestinationStatus.Status d \<noteq> Consumed then False else allConsumed) ds
         in (d # ds', found', allConsumed')))"

text \<open>
  The retry loop \<^verbatim>\<open>for i := 0; i < maxUpdateTries; i++\<close>: the first argument counts
  the tries that are left. The update is guarded by the \<^verbatim>\<open>last-update\<close> token that the
  fetch returned.
\<close>

fun UpdateObjectDeliveryStatus_tries ::
  "nat \<Rightarrow> clock \<Rightarrow> string \<Rightarrow> string \<Rightarrow> string \<Rightarrow> string \<Rightarrow> string \<Rightarrow> store
     \<Rightarrow> SyncServiceError option \<times> store" where
  "UpdateObjectDeliveryStatus_tries 0 clk status message docId destType destID s =
     (Some (Error ''Failed to update object's destinations.''), s)"
| "UpdateObjectDeliveryStatus_tries (Suc n) clk status message docId destType destID s =
     (case fetchOne_objects s docId of
        Inl err \<Rightarrow> (Some (Error ''Failed to retrieve object. Error: %s.''), s)
      | Inr result \<Rightarrow>
          (case UpdateObjectDeliveryStatus_range status message destType destID False True
                  (Destinations result) of
             (dests, found, allConsumed) \<Rightarrow>
               if \<not> found then (Some (Error ''Failed to find destination.''), s)
               else
                 (let expirationTime = formatRFC3339 clk (nowNanos clk + Hour * 1);
                      query =
                        (if AutoDelete (object.MetaData result) \<and> status = Consumed \<and> allConsumed
                              \<and> Expiration (object.MetaData result) = ''''
                         then (\<lambda>ts ob. ob\<lparr>Destinations := dests,
                                  object.MetaData := (object.MetaData ob)\<lparr>Expiration := expirationTime\<rparr>,
                                  LastUpdate := ts\<rparr>)
                         else (\<lambda>ts ob. ob\<lparr>Destinations := dests, LastUpdate := ts\<rparr>))
                  in case update_objects s docId (\<lambda>ob. LastUpdate ob = LastUpdate result) query of
                       (None, s') \<Rightarrow> (None, s')
                     | (Some err, s') \<Rightarrow>
                         if err = ErrNotFound
                         then UpdateObjectDeliveryStatus_tries n clk status message docId destType destID s'
                         else (Some (Error ''Failed to update object's destinations. Error: %s.''), s'))))"

definition UpdateObjectDeliveryStatus ::
  "clock \<Rightarrow> string \<Rightarrow> string \<Rightarrow> string \<Rightarrow> string \<Rightarrow> string \<Rightarrow> string \<Rightarrow> string \<Rightarrow> store
     \<Rightarrow> SyncServiceError option \<times> store" where
  "UpdateObjectDeliveryStatus clk status message orgID objectType objectID destType destID s =
     (if status = '''' \<and> message = '''' then (None, s)
      else UpdateObjectDeliveryStatus_tries maxUpdateTries clk status message
             (createObjectCollectionID orgID objectType objectID) destType destID s)"

section \<open>Objects: store, payload replacement, counters\<close>

text \<open>
  Modelled from the spec: \<^verbatim>\<open>createDestinations\<close> is not in the sources at hand. Spec
  4.3, destination computation: the destinations of the object's organization,
  filtered by the metadata's destination type and id where these are not empty, each
  with the initial status Pending.
\<close>

definition createDestinations :: "store \<Rightarrow> MetaData \<Rightarrow> SyncServiceError + StoreDestinationStatus list" where
  "createDestinations s metaData =
     (case fetchAll_destinations s
             (\<lambda>d. Destination.DestOrgID (destinationObject.Destination d) = MetaData.DestOrgID metaData
                  \<and> (MetaData.DestType metaData = ''''
                       \<or> Destination.DestType (destinationObject.Destination d) = MetaData.DestType metaData)
                  \<and> (MetaData.DestID metaData = ''''
                       \<or> Destination.DestID (destinationObject.Destination d) = MetaData.DestID metaData)) of
        Inl err \<Rightarrow> Inl (Error ''Failed to fetch the destinations. Error: %s.'')
      | Inr ds \<Rightarrow>
          Inr (map (\<lambda>d. \<lparr>StoreDestinationStatus.Destination = destinationObject.Destination d,
                          StoreDestinationStatus.Status = Pending, Message = ''''\<rparr>) ds))"

text \<open>
  \<^verbatim>\<open>StoreObject\<close>. The data is a byte slice that may be nil (\<^term>\<open>None\<close>). The result
  of \<^verbatim>\<open>removeFile\<close> is dropped, as in the source. A nil destinations slice is the empty
  list.
\<close>

definition StoreObject ::
  "clock \<Rightarrow> MetaData \<Rightarrow> byte list option \<Rightarrow> string \<Rightarrow> store \<Rightarrow> SyncServiceError option \<times> store" where
  "StoreObject clk metaData data status s =
     (let docId = getObjectCollectionID metaData
      in case (case data of
                 Some bytes \<Rightarrow> storeDataInFile s docId bytes
               | None \<Rightarrow>
                   if \<not> MetaOnly metaData \<or> NoData metaData
                   then (None, snd (removeFile s docId))
                   else (None, s)) of
           (Some err, s1) \<Rightarrow> (Some err, s1)
         | (None, s1) \<Rightarrow>
             (case (if status = NotReadyToSend \<or> status = ReadyToSend
                    then (let metaData1 = metaData\<lparr>MetaData.InstanceID := UnixNano clk\<rparr>
                          in case createDestinations s1 metaData1 of
                               Inl err \<Rightarrow> Inl err
                             | Inr dests \<Rightarrow> Inr (metaData1, dests))
                    else Inr (metaData, [])) of
                Inl err \<Rightarrow> (Some err, s1)
              | Inr (metaData1, dests) \<Rightarrow>
                  (let newObject =
                         \<lparr>object.ID = docId, object.MetaData = metaData1, object.Status = status,
                          RemainingConsumers = ExpectedConsumers metaData1,
                          RemainingReceivers = ExpectedConsumers metaData1,
                          Destinations = dests, LastUpdate = 0\<rparr>
                   in case upsert_objects s1 docId
                             (\<lambda>ob. MetaData.DestOrgID (object.MetaData ob) = MetaData.DestOrgID metaData1)
                             newObject of
                        (Some err, s2) \<Rightarrow> (Some (Error ''Failed to store an object. Error: %s.''), s2)
                      | (None, s2) \<Rightarrow> (None, s2))))"

definition ResetObjectRemainingConsumers ::
  "string \<Rightarrow> string \<Rightarrow> string \<Rightarrow> store \<Rightarrow> SyncServiceError option \<times> store" where
  "ResetObjectRemainingConsumers orgID objectType objectID s =
     (let docId = createObjectCollectionID orgID objectType objectID
      in case fetchOne_objects s docId of
           Inl err \<Rightarrow> (Some (Error ''Failed to retrieve object. Error: %s.''), s)
         | Inr result \<Rightarrow>
             (case update_objects s docId (\<lambda>ob. True)
                     (\<lambda>ts ob. ob\<lparr>RemainingConsumers := ExpectedConsumers (object.MetaData result),
                                  LastUpdate := ts\<rparr>) of
                (Some err, s') \<Rightarrow>
                  (Some (Error ''Failed to reset object's remaining comsumers. Error: %s.''), s')
              | (None, s') \<Rightarrow> (None, s')))"

definition UpdateObjectStatus ::
  "string \<Rightarrow> string \<Rightarrow> string \<Rightarrow> string \<Rightarrow> store \<Rightarrow> SyncServiceError option \<times> store" where
  "UpdateObjectStatus orgID objectType objectID status s =
     (let docId = createObjectCollectionID orgID objectType objectID
      in case update_objects s docId (\<lambda>ob. True)
                (\<lambda>ts ob. ob\<lparr>object.Status := status, LastUpdate := ts\<rparr>) of
           (Some err, s') \<Rightarrow> (Some (Error ''Failed to update object's status. Error: %s.''), s')
         | (None, s') \<Rightarrow> (None, s'))"

text \<open>
  \<^verbatim>\<open>StoreObjectData\<close>: the result of \<^verbatim>\<open>UpdateObjectStatus\<close> is dropped, as in the
  source; the last update sets the sz without touching \<^verbatim>\<open>last-update\<close>.
\<close>

definition StoreObjectData ::
  "clock \<Rightarrow> string \<Rightarrow> string \<Rightarrow> string \<Rightarrow> reader \<Rightarrow> store
     \<Rightarrow> (bool \<times> SyncServiceError option) \<times> store" where
  "StoreObjectData clk orgID objectType objectID dataReader s =
     (let docId = createObjectCollectionID orgID objectType objectID
      in case fetchOne_objects s docId of
           Inl err \<Rightarrow>
             (case err of
                ErrNotFound \<Rightarrow> ((False, None), s)
              | _ \<Rightarrow> ((False, Some (Error ''Failed to store the data. Error: %s.'')), s))
         | Inr result \<Rightarrow>
             (case (if object.Status result = NotReadyToSend
                    then Inr (snd (UpdateObjectStatus orgID objectType objectID ReadyToSend s))
                    else if object.Status result = ReadyToSend
                    then (case update_objects s docId (\<lambda>ob. True)
                                 (\<lambda>ts ob. ob\<lparr>object.MetaData :=
                                               (object.MetaData ob)\<lparr>MetaData.InstanceID := UnixNano clk\<rparr>,
                                             LastUpdate := ts\<rparr>) of
                            (Some err, s1) \<Rightarrow> Inl (Error ''Failed to set instance id. Error: %s.'', s1)
                          | (None, s1) \<Rightarrow> Inr s1)
                    else Inr s) of
                Inl (err, s1) \<Rightarrow> ((False, Some err), s1)
              | Inr s1 \<Rightarrow>
                  (case copyDataToFile s1 docId dataReader True True of
                     (Inl err, s2) \<Rightarrow> ((False, Some err), s2)
                   | (Inr (fh, sz), s2) \<Rightarrow>
                       (case update_objects s2 docId (\<lambda>ob. True)
                               (\<lambda>ts ob. ob\<lparr>object.MetaData :=
                                             (object.MetaData ob)\<lparr>ObjectSize := sz\<rparr>\<rparr>) of
                          (Some err, s3) \<Rightarrow>
                            ((False, Some (Error ''Failed to update object's sz. Error: %s.'')), s3)
                        | (None, s3) \<Rightarrow> ((True, None), s3)))))"

section \<open>Random-access reads\<close>

text \<open>
  \<^verbatim>\<open>ReadObjectData\<close> on the database backend. The result is the byte slice (nil is
  \<^term>\<open>None\<close>), \<^verbatim>\<open>eof\<close>, the number of bytes read and the error. The file is opened and
  closed within the call, and the state does not change. \<^verbatim>\<open>make\<close> with a negative
  length panics.
\<close>

definition ReadObjectData ::
  "string \<Rightarrow> string \<Rightarrow> string \<Rightarrow> int \<Rightarrow> int64 \<Rightarrow> store
     \<Rightarrow> byte list option \<times> bool \<times> nat \<times> SyncServiceError option" where
  "ReadObjectData orgID objectType objectID sz offs s =
     (let docId = createObjectCollectionID orgID objectType objectID
      in case openFile s docId of
           Inl err \<Rightarrow> (None, True, 0, Some (Error ''Failed to open file to read the data. Error: %s.''))
         | Inr fileHandle \<Rightarrow>
             (let offset64 = offs
              in if sint (GridFile_Size (gfile fileHandle)) \<le> sint offset64
                 then (Some [], True, 0, None)
                 else
                   (case GridFile_Seek (dbFault s) (gfile fileHandle) offset64 of
                      (Some err, f1) \<Rightarrow>
                        (None, True, 0, Some (Error ''Failed to read the data. Error: %s.''))
                    | (None, f1) \<Rightarrow>
                        (let s0 = (word_of_int sz :: int64);
                             s1 = (if sint (GridFile_Size (gfile fileHandle) - offset64) < sint s0
                                   then GridFile_Size (gfile fileHandle) - offset64 else s0)
                         in if sint s1 < 0 then (None, False, 0, Some (Panic ''makeslice: len out of range''))
                            else
                              (case GridFile_Read (dbFault s) f1 (nat (sint s1)) of
                                 (b, n, Some err) \<Rightarrow>
                                   (None, True, 0, Some (Error ''Failed to read the data. Error: %s.''))
                               | (b, n, None) \<Rightarrow>
                                   (case GridFile_Close s f1 of
                                      (Some err, s') \<Rightarrow>
                                        (None, True, 0, Some (Error ''Failed to close the file. Error: %s.''))
                                    | (None, s') \<Rightarrow>
                                        (Some b,
                                         GridFile_Size (gfile fileHandle) - offset64 = of_nat n,
                                         n, None)))))))"

subsection \<open>The file backend: package dataURI\<close>

text \<open>
  \<^verbatim>\<open>url.Parse\<close> belongs to the standard library and is a parameter of the model: it
  gives the scheme and the path of a URI, or fails. The file system is a map from paths
  to contents. \<^verbatim>\<open>strings.EqualFold\<close> is compared on ASCII letters, which decides the
  comparison with \<^verbatim>\<open>"file"\<close>.
\<close>

record URL =
  Scheme :: string
  Path :: string

definition toLowerASCII :: "char \<Rightarrow> char" where
  "toLowerASCII c =
     (let n = (of_char c :: nat) in if 65 \<le> n \<and> n \<le> 90 then char_of (n + 32) else c)"

definition EqualFold :: "string \<Rightarrow> string \<Rightarrow> bool" where
  "EqualFold a b \<longleftrightarrow> map toLowerASCII a = map toLowerASCII b"

text \<open>
  \<^verbatim>\<open>n, err := file.ReadAt(result, offset)\<close> of \<^verbatim>\<open>os.File\<close> for a buffer of the given
  length: the buffer after the call, \<open>n\<close> and \<open>err\<close>. A negative offset is an error.
  A buffer of length 0 is not read into at all (\<open>n = 0\<close>, no error). Otherwise the
  read (\<^verbatim>\<open>pread\<close>) is refused as an invalid argument when the offset plus the
  length of the buffer is beyond the largest \<^verbatim>\<open>int64\<close>; else it reads until the
  buffer is full or the file ends, and the end of the file before the buffer is full
  is \<^verbatim>\<open>io.EOF\<close>.
\<close>

definition File_ReadAt :: "byte list \<Rightarrow> nat \<Rightarrow> int64 \<Rightarrow> byte list \<times> nat \<times> ioError option" where
  "File_ReadAt content len offs =
     (if sint offs < 0 then (replicate len 0, 0, Some (ErrIO ''negative offset''))
      else if 0 < len \<and> 2 ^ 63 \<le> sint offs + int len
      then (replicate len 0, 0, Some (ErrIO ''invalid argument''))
      else (let got = take len (drop (nat (sint offs)) content)
            in (got @ replicate (len - length got) 0, length got,
                if length got < len then Some EOF else None)))"

text \<open>
  \<^verbatim>\<open>GetDataChunk\<close>. \<^verbatim>\<open>result := make([]byte, size)\<close> panics when the size is negative
  or beyond what the runtime allocates; that limit belongs to the runtime and the
  machine (\<open>2^48\<close> bytes on linux/amd64, less where memory is short) and is the
  parameter \<open>maxAlloc\<close>. Go's \<^verbatim>\<open>int\<close> reaches beyond the limit, so the size is an
  integer here, and \<^verbatim>\<open>int64(size)\<close> is its value as an \<^verbatim>\<open>int64\<close>.
\<close>

definition GetDataChunk ::
  "nat \<Rightarrow> (string \<Rightarrow> URL option) \<Rightarrow> (string \<rightharpoonup> byte list) \<Rightarrow> string \<Rightarrow> int \<Rightarrow> int64
     \<Rightarrow> byte list option \<times> bool \<times> nat \<times> SyncServiceError option" where
  "GetDataChunk maxAlloc parse fs uri sz offs =
     (case parse uri of
        None \<Rightarrow> (None, False, 0, Some (URIError ''Invalid data URI''))
      | Some dataURI \<Rightarrow>
          if \<not> EqualFold (Scheme dataURI) ''file''
          then (None, False, 0, Some (URIError ''Invalid data URI''))
          else
            (case fs (Path dataURI) of
               None \<Rightarrow> (None, True, 0, Some (CreatedError ''Failed to open file %s to read data. Error: ''))
             | Some content \<Rightarrow>
                 if sz < 0 \<or> int maxAlloc < sz
                 then (None, False, 0, Some (Panic ''makeslice: len out of range''))
                 else
                   (case File_ReadAt content (nat sz) offs of
                      (result, n, err) \<Rightarrow>
                        if int n = sz
                        then (if err \<noteq> None
                              then (None, True, 0, Some (IOError ''Failed to read data. Error: ''))
                              else (Some result,
                                    (of_nat (length content) :: int64) = offs + word_of_int sz,
                                    n, None))
                        else (if err = Some EOF
                              then (Some result, True, n, None)
                              else (None, True, 0, Some (IOError ''Failed to read data. Error: ''))))))"

section \<open>Notifications\<close>

text \<open>
  \<^verbatim>\<open>RetrieveNotifications\<close>: the three queries of the source as predicates on a
  notification document; \<^verbatim>\<open>$lte\<close> on the resend time compares \<^verbatim>\<open>int64\<close> values.
\<close>

definition RetrieveNotifications ::
  "clock \<Rightarrow> string \<Rightarrow> string \<Rightarrow> string \<Rightarrow> bool \<Rightarrow> store \<Rightarrow> SyncServiceError + Notification list" where
  "RetrieveNotifications clk orgID destType destID retrieveReceived s =
     (let query =
            (if destType = '''' \<and> destID = ''''
             then (let currentTime = Unix clk
                   in (\<lambda>d. Notification.Status (Notification d) = Getdata
                          \<or> (sint (ResendTime (Notification d)) \<le> sint currentTime
                              \<and> (Notification.Status (Notification d) = Update
                                   \<or> Notification.Status (Notification d) = Received
                                   \<or> Notification.Status (Notification d) = Consumed
                                   \<or> Notification.Status (Notification d) = Data
                                   \<or> Notification.Status (Notification d) = Delete
                                   \<or> Notification.Status (Notification d) = Deleted))))
             else if retrieveReceived
             then (\<lambda>d. (Notification.Status (Notification d) = Update
                         \<or> Notification.Status (Notification d) = Received
                         \<or> Notification.Status (Notification d) = Consumed
                         \<or> Notification.Status (Notification d) = Getdata
                         \<or> Notification.Status (Notification d) = Data
                         \<or> Notification.Status (Notification d) = ReceivedByDestination
                         \<or> Notification.Status (Notification d) = Delete
                         \<or> Notification.Status (Notification d) = Deleted)
                      \<and> Notification.DestOrgID (Notification d) = orgID
                      \<and> Notification.DestID (Notification d) = destID
                      \<and> Notification.DestType (Notification d) = destType)
             else (\<lambda>d. (Notification.Status (Notification d) = Update
                         \<or> Notification.Status (Notification d) = Received
                         \<or> Notification.Status (Notification d) = Consumed
                         \<or> Notification.Status (Notification d) = Getdata
                         \<or> Notification.Status (Notification d) = Delete
                         \<or> Notification.Status (Notification d) = Deleted)
                      \<and> Notification.DestOrgID (Notification d) = orgID
                      \<and> Notification.DestID (Notification d) = destID
                      \<and> Notification.DestType (Notification d) = destType))
      in case fetchAll_notifications s query of
           Inl err \<Rightarrow>
             if err \<noteq> ErrNotFound
             then Inl (Error ''Failed to fetch the notifications. Error: %s.'')
             else Inr []
         | Inr result \<Rightarrow> Inr (map Notification result))"

section \<open>Chunked upload: AppendObjectData\<close>

text \<open>The entries of the out-of-order map of a handle; a nil map has none.\<close>

definition chunkMap :: "fileHandle \<Rightarrow> (int64, byte list) fmap" where
  "chunkMap fh = (case chunks fh of None \<Rightarrow> fmempty | Some m \<Rightarrow> m)"

text \<open>
  The \<^verbatim>\<open>for { ... }\<close> loop of the branch \<^verbatim>\<open>offset == fileHandle.offset\<close>: write the
  data, advance the handle's offset by the bytes written, and go on with the buffered
  chunk stored under the new offset, if there is one, after deleting it from the map.
  The result is the error, if any, and the handle as the loop leaves it.
\<close>

function AppendObjectData_write ::
  "string option \<Rightarrow> fileHandle \<Rightarrow> byte list \<Rightarrow> SyncServiceError option \<times> fileHandle" where
  "AppendObjectData_write fault fh data =
     (case GridFile_Write fault (gfile fh) data of
        (n, Some (ErrPanic msg), f') \<Rightarrow> (Some (Panic msg), fh\<lparr>gfile := f'\<rparr>)
      | (n, Some err, f') \<Rightarrow>
          (Some (Error ''Failed to write the data to the file. Error: %s.''), fh\<lparr>gfile := f'\<rparr>)
      | (n, None, f') \<Rightarrow>
          if n \<noteq> length data
          then (Some (Error ''Failed to write all the data to the file. Wrote %d instead of %d.''),
                fh\<lparr>gfile := f'\<rparr>)
          else
            (let fh1 = fh\<lparr>gfile := f', offset := offset fh + of_nat n\<rparr>
             in case chunks fh1 of
                  None \<Rightarrow> (None, fh1)
                | Some m \<Rightarrow>
                    (case fmlookup m (offset fh1) of
                       None \<Rightarrow> (None, fh1)
                     | Some data' \<Rightarrow>
                         AppendObjectData_write fault
                           (fh1\<lparr>chunks := Some (fmdrop (offset fh1) m)\<rparr>) data')))"
  by pat_completeness auto
termination
proof (relation "measure (\<lambda>(fault, fh, data). fcard (fmdom (chunkMap fh)))")
  show "wf (measure (\<lambda>(fault, fh, data). fcard (fmdom (chunkMap fh))))"
    by simp
next
  fix fault :: "string option" and fh :: fileHandle and data :: "byte list"
    and x :: "nat \<times> mgoError option \<times> GridFile" and n :: nat
    and y :: "mgoError option \<times> GridFile" and e :: "mgoError option" and f' :: GridFile
    and fh1 :: fileHandle and m :: "(int64, byte list) fmap" and data' :: "byte list"
  assume fh1: "fh1 = fh\<lparr>gfile := f', offset := offset fh + of_nat n\<rparr>"
    and m: "chunks fh1 = Some m"
    and hit: "fmlookup m (offset fh1) = Some data'"
  from hit have "offset fh1 |\<in>| fmdom m"
    by (simp add: fmdomI)
  then have "fcard (fmdom m |-| {|offset fh1|}) < fcard (fmdom m)"
    by (rule fcard_fminus1_less)
  moreover from fh1 m have "chunkMap fh = m"
    by (simp add: chunkMap_def)
  ultimately
  show "((fault, fh1\<lparr>chunks := Some (fmdrop (offset fh1) m)\<rparr>, data'), (fault, fh, data))
          \<in> measure (\<lambda>(fault, fh, data). fcard (fmdom (chunkMap fh)))"
    by (simp add: chunkMap_def)
qed

declare AppendObjectData_write.simps [simp del]

text \<open>
  The handle is a pointer. A handle that came from \<^verbatim>\<open>openFiles\<close> (every chunk but the
  first) is the object the map holds, so what the call did to it is in the map even
  when the call returns early; the handle of a first chunk is new and reaches the map
  only through \<^verbatim>\<open>putFileHandle\<close>.
\<close>

definition sharedHandle :: "bool \<Rightarrow> string \<Rightarrow> fileHandle \<Rightarrow> store \<Rightarrow> store" where
  "sharedHandle isFirstChunk docId fh s =
     (if isFirstChunk then s else s\<lparr>openFiles := (openFiles s)(docId \<mapsto> fh)\<rparr>)"

definition AppendObjectData ::
  "string \<Rightarrow> string \<Rightarrow> string \<Rightarrow> reader \<Rightarrow> uint32 \<Rightarrow> int64 \<Rightarrow> int64 \<Rightarrow> bool \<Rightarrow> bool \<Rightarrow> store
     \<Rightarrow> SyncServiceError option \<times> store" where
  "AppendObjectData orgID objectType objectID dataReader dataLength offs totalSize isFirstChunk isLastChunk s =
     (let docId = createObjectCollectionID orgID objectType objectID
      in case (if isFirstChunk
               then (let s1 = snd (removeFile s docId)
                     in case createFile s1 docId of
                          Inl err \<Rightarrow> Inl (err, s1)
                        | Inr fh \<Rightarrow> Inr (fh, s1))
               else (case getFileHandle s docId of
                       None \<Rightarrow>
                         Inl (Error ''Failed to append the data at offset %d, the file %s doesn't exist.'', s)
                     | Some fh \<Rightarrow> Inr (fh, s))) of
           Inl (err, s1) \<Rightarrow> (Some err, s1)
         | Inr (fh, s1) \<Rightarrow>
             (case (if 0 < dataLength then Reader_Read dataReader (unat dataLength)
                    else ReadAll dataReader) of
                (data, n, err) \<Rightarrow>
                  if err \<noteq> None
                  then (Some (Error ''Failed to read the data from the dataReader. Error: %s.''), s1)
                  else if of_nat n \<noteq> dataLength \<and> 0 < dataLength
                  then (Some (Error ''Failed to read all the data from the dataReader. Read %d instead of %d.''), s1)
                  else
                    (case (if offs = offset fh
                           then AppendObjectData_write (dbFault s1) fh data
                           else
                             (let fh1 = (if chunks fh = None then fh\<lparr>chunks := Some fmempty\<rparr> else fh)
                              in if 100 < fcard (fmdom (chunkMap fh1))
                                 then (Some (Discarded '' Discard data chunk at offset %d since there are too many out-of-order chunks''),
                                       fh1)
                                 else (None, fh1\<lparr>chunks := Some (fmupd offs data (chunkMap fh1))\<rparr>))) of
                       (Some err, fh') \<Rightarrow> (Some err, sharedHandle isFirstChunk docId fh' s1)
                     | (None, fh') \<Rightarrow>
                         if isLastChunk
                         then (case GridFile_Close (deleteFileHandle s1 docId) (gfile fh') of
                                 (Some err, s2) \<Rightarrow> (Some (Error ''Failed to close the file. Error: %s.''), s2)
                               | (None, s2) \<Rightarrow> (None, s2))
                         else (None, putFileHandle s1 docId fh'))))"

section \<open>Sequences of AppendObjectData calls\<close>

text \<open>
  A caller's sequence of calls for one object, each call given as the chunk's offset,
  its bytes, and the two flags. The chunk travels in a reader over its bytes, with its
  length as \<^verbatim>\<open>dataLength\<close>. The results of the calls are collected in order.
\<close>

fun appendCalls ::
  "string \<Rightarrow> string \<Rightarrow> string \<Rightarrow> int64 \<Rightarrow> (int64 \<times> byte list \<times> bool \<times> bool) list \<Rightarrow> store
     \<Rightarrow> SyncServiceError option list \<times> store" where
  "appendCalls orgID objectType objectID totalSize [] s = ([], s)"
| "appendCalls orgID objectType objectID totalSize ((offs, data, isFirstChunk, isLastChunk) # rest) s =
     (case AppendObjectData orgID objectType objectID (BytesReader data) (of_nat (length data))
             offs totalSize isFirstChunk isLastChunk s of
        (err, s1) \<Rightarrow>
          (case appendCalls orgID objectType objectID totalSize rest s1 of
             (errs, s2) \<Rightarrow> (err # errs, s2)))"

text \<open>Chunks sent in the middle of an upload: neither the first nor the last call.\<close>

definition middle :: "(int64 \<times> byte list) list \<Rightarrow> (int64 \<times> byte list \<times> bool \<times> bool) list" where
  "middle cs = map (\<lambda>(offs, data). (offs, data, False, False)) cs"

text \<open>
  The calls of a whole upload: the first call carries \<^verbatim>\<open>isFirstChunk\<close>, the final call
  carries \<^verbatim>\<open>isLastChunk\<close>.
\<close>

fun upload :: "bool \<Rightarrow> (int64 \<times> byte list) list \<Rightarrow> (int64 \<times> byte list \<times> bool \<times> bool) list" where
  "upload isFirst [] = []"
| "upload isFirst ((offs, data) # rest) = (offs, data, isFirst, rest = []) # upload False rest"

text \<open>The number of chunks in the out-of-order window of the key's handle.\<close>

definition window :: "store \<Rightarrow> string \<Rightarrow> nat" where
  "window s docId = (case openFiles s docId of None \<Rightarrow> 0 | Some fh \<Rightarrow> fcard (fmdom (chunkMap fh)))"

text \<open>
  Chunks that cover a byte range without gaps, in offset order: each chunk with the
  offset at which it starts, from the given start.
\<close>

fun layout :: "nat \<Rightarrow> byte list list \<Rightarrow> (nat \<times> byte list) list" where
  "layout start [] = []"
| "layout start (c # cs) = (start, c) # layout (start + length c) cs"

definition wire :: "nat \<times> byte list \<Rightarrow> int64 \<times> byte list" where
  "wire c = (of_nat (fst c), snd c)"

section \<open>Notions of the statements\<close>

text \<open>An entry of a destinations list is the entry of the given destination type and id.\<close>

definition isDest :: "string \<Rightarrow> string \<Rightarrow> StoreDestinationStatus \<Rightarrow> bool" where
  "isDest destType destID d \<longleftrightarrow>
     Destination.DestType (StoreDestinationStatus.Destination d) = destType \<and>
     Destination.DestID (StoreDestinationStatus.Destination d) = destID"

text \<open>The entry that the call rewrites.\<close>

definition deliveredEntry :: "string \<Rightarrow> string \<Rightarrow> StoreDestinationStatus \<Rightarrow> StoreDestinationStatus" where
  "deliveredEntry status message d =
     (let d1 = (if message \<noteq> '''' \<or> StoreDestinationStatus.Status d = common_Error
                then d\<lparr>Message := message\<rparr> else d)
      in if status \<noteq> '''' then d1\<lparr>StoreDestinationStatus.Status := status\<rparr> else d1)"

text \<open>
  The offset at which the \<open>i\<close>-th chunk of a sequence of chunks starts when the chunks
  cover a byte range from 0 without gaps: the number of bytes before it.
\<close>

definition chunkOffset :: "byte list list \<Rightarrow> nat \<Rightarrow> nat" where
  "chunkOffset cs i = length (concat (take i cs))"

text \<open>
  The handle of an upload of the chunks \<open>cs\<close> after the chunks \<open>sent\<close> (given with their
  offsets) have been appended: for some \<open>j\<close>, the first \<open>j\<close> chunks have all been sent
  and are written to the file in order, the handle stands at the offset of chunk \<open>j\<close>,
  which has not been sent, and the out-of-order map holds exactly the chunks sent
  that lie beyond chunk \<open>j\<close>, each under its offset.
\<close>

definition assembled :: "string \<Rightarrow> byte list list \<Rightarrow> (nat \<times> byte list) set \<Rightarrow> fileHandle \<Rightarrow> bool" where
  "assembled docId cs sent fh \<longleftrightarrow>
     (\<exists>j\<le>length cs.
        (\<forall>i<j. layout 0 cs ! i \<in> sent)
        \<and> (j < length cs \<longrightarrow> layout 0 cs ! j \<notin> sent)
        \<and> gfile fh = \<lparr>gfId = docId, gfWriting = True, gfData = concat (take j cs), gfPos = 0\<rparr>
        \<and> offset fh = of_nat (chunkOffset cs j)
        \<and> (\<forall>k d. fmlookup (chunkMap fh) k = Some d \<longleftrightarrow>
               (\<exists>i<length cs. j < i \<and> layout 0 cs ! i \<in> sent
                    \<and> k = of_nat (chunkOffset cs i) \<and> d = cs ! i)))"

text \<open>
  The calls of an upload that has not reached its last chunk: the first call carries
  \<^verbatim>\<open>isFirstChunk\<close> when the upload starts with it, and no call carries
  \<^verbatim>\<open>isLastChunk\<close>.
\<close>

definition started :: "bool \<Rightarrow> (int64 \<times> byte list) list \<Rightarrow> (int64 \<times> byte list \<times> bool \<times> bool) list" where
  "started isFirst cs =
     (case cs of [] \<Rightarrow> [] | (offs, data) # rest \<Rightarrow> (offs, data, isFirst, False) # middle rest)"

text \<open>
  The statement \<^verbatim>\<open>if offset == fileHandle.offset { ... } else { ... }\<close> of
  \<^verbatim>\<open>AppendObjectData\<close> on its own: what it does to the handle with the data read.
\<close>

definition placeChunk ::
  "string option \<Rightarrow> fileHandle \<Rightarrow> int64 \<Rightarrow> byte list \<Rightarrow> SyncServiceError option \<times> fileHandle" where
  "placeChunk fault fh offs data =
     (if offs = offset fh
      then AppendObjectData_write fault fh data
      else
        (let fh1 = (if chunks fh = None then fh\<lparr>chunks := Some fmempty\<rparr> else fh)
         in if 100 < fcard (fmdom (chunkMap fh1))
            then (Some (Discarded '' Discard data chunk at offset %d since there are too many out-of-order chunks''),
                  fh1)
            else (None, fh1\<lparr>chunks := Some (fmupd offs data (chunkMap fh1))\<rparr>)))"

section \<open>Concrete states and inputs\<close>

text \<open>Small concrete states, on which the properties below are also exercised.\<close>

definition emptyStore :: store where
  "emptyStore =
     \<lparr>objects = Map.empty, destinations = [], notifications = [], leader = Map.empty,
      gridFS = Map.empty, serverClock = 0, dbFault = None, openFiles = Map.empty\<rparr>"

definition exampleConfiguration :: Configuration where
  "exampleConfiguration = \<lparr>LeadershipTimeout = 30, ResendInterval = 5\<rparr>"

text \<open>Node A has bootstrapped the leader document (spec scenario 5).\<close>

definition leaderStoreA :: store where
  "leaderStoreA = snd (InsertInitialLeader exampleConfiguration ''A'' emptyStore)"

text \<open>A leader document whose version is the largest \<^verbatim>\<open>int64\<close>.\<close>

definition leaderStoreMax :: store where
  "leaderStoreMax =
     emptyStore\<lparr>leader := [1 \<mapsto> \<lparr>leaderDocument.ID = 1, UUID = ''A'', LastHeartbeatTS = 0,
                                   HeartbeatTimeout = 30, Version = 0x7FFFFFFFFFFFFFFF\<rparr>],
                 serverClock := 1\<rparr>"

text \<open>
  An object with \<^verbatim>\<open>autoDelete\<close> and two pending destinations (spec scenario 4), and a
  clock that stands at the epoch and prints the two times the scenario meets.
\<close>

definition exampleClock :: clock where
  "exampleClock =
     \<lparr>nowNanos = 0,
      formatRFC3339 = (\<lambda>t. if t = 3600000000000 then ''1970-01-01T01:00:00Z''
                            else ''1970-01-01T00:00:00Z'')\<rparr>"

definition exampleMetaData :: MetaData where
  "exampleMetaData =
     \<lparr>MetaData.ObjectID = ''X'', MetaData.ObjectType = ''T'', MetaData.DestOrgID = ''O'',
      MetaData.DestType = '''', MetaData.DestID = '''', MetaData.InstanceID = 7,
      ExpectedConsumers = 2, Inactive = False, NoData = False, MetaOnly = False,
      AutoDelete = True, ActivationTime = '''', Expiration = '''', ObjectSize = 0,
      Deleted_flag = False\<rparr>"

definition dest1 :: Destination where
  "dest1 = \<lparr>Destination.DestOrgID = ''O'', Destination.DestType = ''edge'',
             Destination.DestID = ''d1'', Communication = ''mqtt''\<rparr>"

definition dest2 :: Destination where
  "dest2 = \<lparr>Destination.DestOrgID = ''O'', Destination.DestType = ''edge'',
             Destination.DestID = ''d2'', Communication = ''mqtt''\<rparr>"

definition exampleObject :: object where
  "exampleObject =
     \<lparr>object.ID = ''O:T:X'', object.MetaData = exampleMetaData, object.Status = ReadyToSend,
      RemainingConsumers = 2, RemainingReceivers = 2,
      Destinations =
        [\<lparr>StoreDestinationStatus.Destination = dest1, StoreDestinationStatus.Status = Pending, Message = ''''\<rparr>,
         \<lparr>StoreDestinationStatus.Destination = dest2, StoreDestinationStatus.Status = Pending, Message = ''''\<rparr>],
      LastUpdate = 1\<rparr>"

definition deliveryStore :: store where
  "deliveryStore = emptyStore\<lparr>objects := [''O:T:X'' \<mapsto> exampleObject], serverClock := 1\<rparr>"

text \<open>The same store once the first destination has been marked consumed.\<close>

definition deliveryStore1 :: store where
  "deliveryStore1 =
     emptyStore\<lparr>objects := [''O:T:X'' \<mapsto> exampleObject
        \<lparr>Destinations :=
           [\<lparr>StoreDestinationStatus.Destination = dest1, StoreDestinationStatus.Status = Consumed, Message = ''''\<rparr>,
            \<lparr>StoreDestinationStatus.Destination = dest2, StoreDestinationStatus.Status = Pending, Message = ''''\<rparr>],
         LastUpdate := 2\<rparr>],
       serverClock := 2\<rparr>"

text \<open>
  A chunked upload out of order (spec scenario 2): the bytes A to D at offset 0 as the
  first chunk, I to L at offset 8, and E to H at offset 4 as the last chunk.
\<close>

definition uploadStore1 :: store where
  "uploadStore1 =
     emptyStore\<lparr>openFiles :=
       [''O:T:X'' \<mapsto> \<lparr>gfile = \<lparr>gfId = ''O:T:X'', gfWriting = True, gfData = [65, 66, 67, 68], gfPos = 0\<rparr>,
                       offset = 4, chunks = None\<rparr>]\<rparr>"

definition uploadStore2 :: store where
  "uploadStore2 =
     emptyStore\<lparr>openFiles :=
       [''O:T:X'' \<mapsto> \<lparr>gfile = \<lparr>gfId = ''O:T:X'', gfWriting = True, gfData = [65, 66, 67, 68], gfPos = 0\<rparr>,
                       offset = 4, chunks = Some (fmupd 8 [73, 74, 75, 76] fmempty)\<rparr>]\<rparr>"

definition uploadStore3 :: store where
  "uploadStore3 =
     emptyStore\<lparr>gridFS := [''O:T:X'' \<mapsto> [65, 66, 67, 68, 69, 70, 71, 72, 73, 74, 75, 76]]\<rparr>"


text \<open>
  The object of \<open>deliveryStore\<close> after one of its two receivers has received it and
  both consumers have consumed it.
\<close>

definition consumedStore :: store where
  "consumedStore =
     emptyStore\<lparr>objects := [''O:T:X'' \<mapsto> exampleObject\<lparr>RemainingConsumers := 0, RemainingReceivers := 1\<rparr>],
                 serverClock := 1\<rparr>"

text \<open>A published blob of three bytes, in the database and in a file.\<close>

definition blobStore :: store where
  "blobStore = emptyStore\<lparr>gridFS := [''O:T:X'' \<mapsto> [1, 2, 3]]\<rparr>"

text \<open>The allocation limit of the Go runtime on linux/amd64.\<close>

definition exampleMaxAlloc :: nat where
  "exampleMaxAlloc = 2 ^ 48"

definition exampleParse :: "string \<Rightarrow> URL option" where
  "exampleParse uri =
     (if take 7 uri = ''file://'' then Some \<lparr>Scheme = ''file'', Path = drop 7 uri\<rparr> else None)"

definition exampleFiles :: "string \<rightharpoonup> byte list" where
  "exampleFiles = [''/data/x'' \<mapsto> [1, 2, 3]]"

text \<open>Notifications of one destination, one of them with status Data.\<close>

definition dataNotification :: Notification where
  "dataNotification =
     \<lparr>Notification.ObjectID = ''X'', Notification.ObjectType = ''T'', Notification.DestOrgID = ''O'',
      Notification.DestID = ''d1'', Notification.DestType = ''edge'', Notification.Status = Data,
      Notification.InstanceID = 7, ResendTime = 0\<rparr>"

definition notificationStore :: store where
  "notificationStore =
     emptyStore\<lparr>notifications :=
       [\<lparr>notificationObject.ID = ''O:T:X:edge:d1'', Notification = dataNotification\<rparr>,
        \<lparr>notificationObject.ID = ''O:T:Y:edge:d1'',
          Notification = dataNotification\<lparr>Notification.ObjectID := ''Y'', Notification.Status := Update\<rparr>\<rparr>]\<rparr>"

chapter \<open>Verified properties\<close>

section \<open>Leader election: version-guarded takeover\<close>

lemma update_leader_hit:
  "dbFault s = None \<Longrightarrow> leader s k = Some doc \<Longrightarrow> matches doc \<Longrightarrow>
   update_leader s k matches mutation =
     (None, s\<lparr>leader := (leader s)(k \<mapsto> mutation (serverClock s + 1) doc),
               serverClock := serverClock s + 1\<rparr>)"
  by (simp add: update_leader_def)

lemma update_leader_miss:
  "dbFault s = None \<Longrightarrow> leader s k = None \<or> (\<exists>doc. leader s k = Some doc \<and> \<not> matches doc) \<Longrightarrow>
   update_leader s k matches mutation = (Some ErrNotFound, s)"
  by (auto simp: update_leader_def)

lemma UpdateLeader_version_step:
  "leaderVersion (snd (UpdateLeader cfg uuid observed s)) = leaderVersion s \<or>
   (leaderVersion s = Some observed \<and>
    leaderVersion (snd (UpdateLeader cfg uuid observed s)) = Some (observed + 1))"
  by (auto simp: UpdateLeader_def update_leader_def leaderVersion_def
      split: option.splits)

lemma InsertInitialLeader_version_step:
  "leaderVersion (snd (InsertInitialLeader cfg uuid s)) = leaderVersion s \<or>
   (leaderVersion s = None \<and>
    leaderVersion (snd (InsertInitialLeader cfg uuid s)) = Some 1)"
  by (auto simp: InsertInitialLeader_def insert_leader_def leaderVersion_def Let_def IsDup_def
      split: option.splits)

lemma sint_succ_mono:
  fixes v :: int64
  assumes "sint v < 2 ^ 63 - 1"
  shows "sint v \<le> sint (v + 1)"
proof -
  have lo: "- (2 ^ 63) \<le> sint v"
    using sint_ge [of v] by simp
  have "sint (v + 1) = signed_take_bit 63 (sint v + 1)"
    by (simp add: sint_word_ariths)
  also have "\<dots> = sint v + 1"
    using assms lo by (simp add: signed_take_bit_int_eq_self)
  finally show ?thesis by simp
qed

text \<open>
  C4. \<^verbatim>\<open>UpdateLeader(uuid, observedVersion)\<close> on a reachable backend changes the leader
  document only when its stored version equals the observed one: then it sets the
  uuid, takes a fresh server timestamp for the heartbeat, sets the timeout from the
  configuration and the version to the observed version plus one (in \<^verbatim>\<open>int64\<close>), and
  returns success with no error. When the version differs, or there is no document,
  it returns no success, no error, and the state is unchanged. A call of
  \<^verbatim>\<open>InsertInitialLeader\<close> or \<^verbatim>\<open>UpdateLeader\<close> never lowers the version of an existing
  document whose version is below the largest \<^verbatim>\<open>int64\<close>.
\<close>

theorem UpdateLeader_takeover:
  assumes "dbFault s = None"
  shows "(case leader s 1 of
            None \<Rightarrow> UpdateLeader cfg uuid observed s = ((False, None), s)
          | Some doc \<Rightarrow>
              if Version doc = observed
              then UpdateLeader cfg uuid observed s =
                     ((True, None),
                      s\<lparr>leader := (leader s)(1 \<mapsto> doc\<lparr>LastHeartbeatTS := serverClock s + 1,
                                                       UUID := uuid,
                                                       HeartbeatTimeout := LeadershipTimeout cfg,
                                                       Version := observed + 1\<rparr>),
                        serverClock := serverClock s + 1\<rparr>)
              else UpdateLeader cfg uuid observed s = ((False, None), s))
         \<and> (\<forall>v. leaderVersion s = Some v \<and> sint v < 2 ^ 63 - 1 \<longrightarrow>
               (\<exists>v'. leaderVersion (snd (UpdateLeader cfg uuid observed s)) = Some v'
                      \<and> sint v \<le> sint v') \<and>
               (\<exists>v'. leaderVersion (snd (InsertInitialLeader cfg uuid s)) = Some v'
                      \<and> sint v \<le> sint v'))"
proof (rule conjI)
  show "case leader s 1 of
          None \<Rightarrow> UpdateLeader cfg uuid observed s = ((False, None), s)
        | Some doc \<Rightarrow>
            if Version doc = observed
            then UpdateLeader cfg uuid observed s =
                   ((True, None),
                    s\<lparr>leader := (leader s)(1 \<mapsto> doc\<lparr>LastHeartbeatTS := serverClock s + 1,
                                                     UUID := uuid,
                                                     HeartbeatTimeout := LeadershipTimeout cfg,
                                                     Version := observed + 1\<rparr>),
                      serverClock := serverClock s + 1\<rparr>)
            else UpdateLeader cfg uuid observed s = ((False, None), s)"
  proof (cases "leader s 1")
    case None
    then show ?thesis
      using assms by (simp add: UpdateLeader_def update_leader_miss)
  next
    case (Some doc)
    show ?thesis
    proof (cases "Version doc = observed")
      case True
      then show ?thesis
        using assms Some by (simp add: UpdateLeader_def update_leader_hit)
    next
      case False
      then show ?thesis
        using assms Some by (simp add: UpdateLeader_def update_leader_miss)
    qed
  qed
next
  show "\<forall>v. leaderVersion s = Some v \<and> sint v < 2 ^ 63 - 1 \<longrightarrow>
           (\<exists>v'. leaderVersion (snd (UpdateLeader cfg uuid observed s)) = Some v'
                  \<and> sint v \<le> sint v') \<and>
           (\<exists>v'. leaderVersion (snd (InsertInitialLeader cfg uuid s)) = Some v'
                  \<and> sint v \<le> sint v')"
  proof (intro allI impI conjI)
    fix v
    assume v: "leaderVersion s = Some v \<and> sint v < 2 ^ 63 - 1"
    from UpdateLeader_version_step [of cfg uuid observed s]
    show "\<exists>v'. leaderVersion (snd (UpdateLeader cfg uuid observed s)) = Some v' \<and> sint v \<le> sint v'"
    proof
      assume "leaderVersion (snd (UpdateLeader cfg uuid observed s)) = leaderVersion s"
      with v show ?thesis by simp
    next
      assume "leaderVersion s = Some observed \<and>
        leaderVersion (snd (UpdateLeader cfg uuid observed s)) = Some (observed + 1)"
      with v show ?thesis using sint_succ_mono [of v] by auto
    qed
    from InsertInitialLeader_version_step [of cfg uuid s] v
    show "\<exists>v'. leaderVersion (snd (InsertInitialLeader cfg uuid s)) = Some v' \<and> sint v \<le> sint v'"
      by auto
  qed
qed

lemma leaderStoreA_eq:
  "leaderStoreA =
     emptyStore\<lparr>leader := [1 \<mapsto> \<lparr>leaderDocument.ID = 1, UUID = ''A'', LastHeartbeatTS = 0,
                                   HeartbeatTimeout = 30, Version = 1\<rparr>],
                 serverClock := 1\<rparr>"
  by (simp add: leaderStoreA_def InsertInitialLeader_def insert_leader_def emptyStore_def
      exampleConfiguration_def)

text \<open>
  Spec scenario 5 on the model: after node A has inserted the leader document, node B
  takes over with the version it observed; the version becomes 2; a second takeover
  with the stale version 1 changes nothing.
\<close>

theorem UpdateLeader_takeover_witness:
  "dbFault leaderStoreA = None
   \<and> UpdateLeader exampleConfiguration ''B'' 1 leaderStoreA =
       ((True, None),
        emptyStore\<lparr>leader := [1 \<mapsto> \<lparr>leaderDocument.ID = 1, UUID = ''B'', LastHeartbeatTS = 2,
                                      HeartbeatTimeout = 30, Version = 2\<rparr>],
                    serverClock := 2\<rparr>)
   \<and> leaderVersion leaderStoreA = Some 1
   \<and> leaderVersion (snd (UpdateLeader exampleConfiguration ''B'' 1 leaderStoreA)) = Some 2
   \<and> UpdateLeader exampleConfiguration ''C'' 1
        (snd (UpdateLeader exampleConfiguration ''B'' 1 leaderStoreA)) =
       ((False, None), snd (UpdateLeader exampleConfiguration ''B'' 1 leaderStoreA))"
  using UpdateLeader_takeover [of leaderStoreA exampleConfiguration "''B''" 1]
    UpdateLeader_takeover [of "snd (UpdateLeader exampleConfiguration ''B'' 1 leaderStoreA)"
      exampleConfiguration "''C''" 1]
  by (simp add: leaderStoreA_eq emptyStore_def exampleConfiguration_def leaderVersion_def)

text \<open>
  The last sentence of the claim as the spec words it fails at the largest \<^verbatim>\<open>int64\<close>:
  the version is an \<^verbatim>\<open>int64\<close> and \<^verbatim>\<open>version + 1\<close> wraps around, so a takeover that
  observes the version \<open>2^63 - 1\<close> succeeds and leaves the version \<open>- 2^63\<close>.
\<close>

theorem UpdateLeader_version_wraps:
  "fst (UpdateLeader exampleConfiguration ''B'' 0x7FFFFFFFFFFFFFFF leaderStoreMax) = (True, None)
   \<and> leaderVersion leaderStoreMax = Some 0x7FFFFFFFFFFFFFFF
   \<and> leaderVersion (snd (UpdateLeader exampleConfiguration ''B'' 0x7FFFFFFFFFFFFFFF leaderStoreMax))
       = Some 0x8000000000000000
   \<and> sint (0x7FFFFFFFFFFFFFFF :: int64) = 9223372036854775807
   \<and> sint (0x8000000000000000 :: int64) = - 9223372036854775808"
  by (simp add: UpdateLeader_def update_leader_def leaderStoreMax_def emptyStore_def
      leaderVersion_def)

section \<open>Delivery status updates\<close>

text \<open>
  C10. With the status and the message both empty, \<^verbatim>\<open>UpdateObjectDeliveryStatus\<close>
  returns nil at once, for every other argument and every state: the state is returned
  as it was, so no object is read or written, its destinations and its
  \<^verbatim>\<open>last-update\<close> token stay, and no error is returned whether or not the object or
  the destination exists.
\<close>

theorem UpdateObjectDeliveryStatus_empty_noop:
  "UpdateObjectDeliveryStatus clk '''' '''' orgID objectType objectID destType destID s = (None, s)"
  by (simp add: UpdateObjectDeliveryStatus_def)

theorem UpdateObjectDeliveryStatus_empty_noop_witness:
  "UpdateObjectDeliveryStatus exampleClock '''' '''' ''O'' ''T'' ''missing'' ''edge'' ''d1'' deliveryStore
     = (None, deliveryStore)
   \<and> objects deliveryStore (createObjectCollectionID ''O'' ''T'' ''missing'') = None"
  using UpdateObjectDeliveryStatus_empty_noop
    [of exampleClock "''O''" "''T''" "''missing''" "''edge''" "''d1''" deliveryStore]
  by (simp add: deliveryStore_def emptyStore_def createObjectCollectionID_def)

text \<open>The range loop once the destination has been found, and before it is found.\<close>

lemma range_found:
  "UpdateObjectDeliveryStatus_range status message destType destID True a ds =
     (ds, True, a \<and> (\<forall>x\<in>set ds. StoreDestinationStatus.Status x = Consumed))"
  by (induction ds arbitrary: a) auto

lemma range_prefix:
  assumes "\<forall>x\<in>set pre. \<not> isDest destType destID x"
  shows "UpdateObjectDeliveryStatus_range status message destType destID False a (pre @ rest) =
     (case UpdateObjectDeliveryStatus_range status message destType destID False
             (a \<and> (\<forall>x\<in>set pre. StoreDestinationStatus.Status x = Consumed)) rest of
        (r, f, a') \<Rightarrow> (pre @ r, f, a'))"
  using assms
proof (induction pre arbitrary: a)
  case Nil
  then show ?case by (simp split: prod.splits)
next
  case (Cons x pre)
  then have nx: "\<not> isDest destType destID x" and rest: "\<forall>y\<in>set pre. \<not> isDest destType destID y"
    by simp_all
  show ?case
    using nx Cons.IH [OF rest]
    by (auto simp: isDest_def split: prod.splits)
qed

lemma range_first_match:
  assumes "\<forall>x\<in>set pre. \<not> isDest destType destID x" and "isDest destType destID d"
  shows "UpdateObjectDeliveryStatus_range status message destType destID False True (pre @ d # post) =
     (pre @ deliveredEntry status message d # post, True,
      (\<forall>x\<in>set pre. StoreDestinationStatus.Status x = Consumed) \<and>
      (\<forall>x\<in>set post. StoreDestinationStatus.Status x = Consumed))"
  using assms(2)
  by (simp add: range_prefix [OF assms(1)] range_found isDest_def deliveredEntry_def Let_def)

lemma update_objects_hit:
  "dbFault s = None \<Longrightarrow> objects s k = Some ob \<Longrightarrow> matches ob \<Longrightarrow>
   update_objects s k matches mutation =
     (None, s\<lparr>objects := (objects s)(k \<mapsto> mutation (serverClock s + 1) ob),
               serverClock := serverClock s + 1\<rparr>)"
  by (simp add: update_objects_def)

lemma fetchOne_objects_hit:
  "dbFault s = None \<Longrightarrow> objects s k = Some ob \<Longrightarrow> fetchOne_objects s k = Inr ob"
  by (simp add: fetchOne_objects_def)

lemma Consumed_not_empty: "Consumed \<noteq> ''''"
  by (simp add: Consumed_def)

text \<open>
  C3. The object has \<^verbatim>\<open>autoDelete\<close> set and an empty expiration; \<open>d\<close> is the first
  entry of its destinations list for the given destination, and every other entry of
  the list has status Consumed. Then, on a reachable backend,
  \<^verbatim>\<open>UpdateObjectDeliveryStatus\<close> with the new status Consumed succeeds with one
  update, which writes the new destinations list and sets \<^verbatim>\<open>metadata.expiration\<close> to
  the RFC3339 rendering of now plus one hour.
\<close>

theorem UpdateObjectDeliveryStatus_autoDelete_expiration:
  assumes "dbFault s = None"
    and "objects s (createObjectCollectionID orgID objectType objectID) = Some ob"
    and "AutoDelete (object.MetaData ob)"
    and "Expiration (object.MetaData ob) = ''''"
    and "Destinations ob = pre @ d # post"
    and "\<forall>x\<in>set pre. \<not> isDest destType destID x"
    and "isDest destType destID d"
    and "\<forall>x\<in>set (pre @ post). StoreDestinationStatus.Status x = Consumed"
  shows "UpdateObjectDeliveryStatus clk Consumed message orgID objectType objectID destType destID s =
     (None,
      s\<lparr>objects := (objects s)(createObjectCollectionID orgID objectType objectID \<mapsto>
            ob\<lparr>Destinations := pre @ deliveredEntry Consumed message d # post,
               object.MetaData := (object.MetaData ob)
                 \<lparr>Expiration := formatRFC3339 clk (nowNanos clk + 3600 * 1000000000)\<rparr>,
               LastUpdate := serverClock s + 1\<rparr>),
        serverClock := serverClock s + 1\<rparr>)"
proof -
  let ?k = "createObjectCollectionID orgID objectType objectID"
  have rng: "UpdateObjectDeliveryStatus_range Consumed message destType destID False True (Destinations ob) =
     (pre @ deliveredEntry Consumed message d # post, True, True)"
    using range_first_match [OF assms(6) assms(7), of Consumed message post] assms(5) assms(8)
    by simp
  have step: "UpdateObjectDeliveryStatus_tries (Suc n) clk Consumed message ?k destType destID s =
     (None,
      s\<lparr>objects := (objects s)(?k \<mapsto>
            ob\<lparr>Destinations := pre @ deliveredEntry Consumed message d # post,
               object.MetaData := (object.MetaData ob)
                 \<lparr>Expiration := formatRFC3339 clk (nowNanos clk + 3600 * 1000000000)\<rparr>,
               LastUpdate := serverClock s + 1\<rparr>),
        serverClock := serverClock s + 1\<rparr>)"
    for n
    using assms(1-4)
    by (simp add: fetchOne_objects_hit rng update_objects_hit Hour_def Let_def
        del: UpdateObjectDeliveryStatus_range.simps)
  have five: "maxUpdateTries = Suc 4"
    by (simp add: maxUpdateTries_def)
  show ?thesis
    unfolding UpdateObjectDeliveryStatus_def five
    using step [of 4] Consumed_not_empty by simp
qed

lemma deliveryStore_first_call:
  "UpdateObjectDeliveryStatus exampleClock Consumed '''' ''O'' ''T'' ''X'' ''edge'' ''d1'' deliveryStore
     = (None, deliveryStore1)"
  by (simp add: UpdateObjectDeliveryStatus_def maxUpdateTries_def eval_nat_numeral
      createObjectCollectionID_def deliveryStore_def deliveryStore1_def emptyStore_def
      fetchOne_objects_def update_objects_def exampleObject_def exampleMetaData_def
      dest1_def dest2_def Consumed_def Pending_def common_Error_def Let_def)

text \<open>
  Spec scenario 4 on the model: two destinations, both pending. Marking the first one
  consumed leaves the expiration empty; marking the second one consumed sets it to
  now plus one hour in the same update.
\<close>

theorem UpdateObjectDeliveryStatus_autoDelete_expiration_witness:
  "fst (UpdateObjectDeliveryStatus exampleClock Consumed '''' ''O'' ''T'' ''X'' ''edge'' ''d1'' deliveryStore) = None
   \<and> map_option (\<lambda>ob. Expiration (object.MetaData ob))
        (objects (snd (UpdateObjectDeliveryStatus exampleClock Consumed '''' ''O'' ''T'' ''X'' ''edge'' ''d1''
           deliveryStore)) ''O:T:X'') = Some ''''
   \<and> fst (UpdateObjectDeliveryStatus exampleClock Consumed '''' ''O'' ''T'' ''X'' ''edge'' ''d2'' deliveryStore1) = None
   \<and> map_option (\<lambda>ob. (Expiration (object.MetaData ob), map StoreDestinationStatus.Status (Destinations ob)))
        (objects (snd (UpdateObjectDeliveryStatus exampleClock Consumed '''' ''O'' ''T'' ''X'' ''edge'' ''d2''
           deliveryStore1)) ''O:T:X'')
       = Some (''1970-01-01T01:00:00Z'', [''consumed'', ''consumed''])"
  using UpdateObjectDeliveryStatus_autoDelete_expiration
    [where s = deliveryStore1 and orgID = "''O''" and objectType = "''T''" and objectID = "''X''"
       and destType = "''edge''" and destID = "''d2''" and clk = exampleClock and message = "''''"
       and ob = "exampleObject
        \<lparr>Destinations :=
           [\<lparr>StoreDestinationStatus.Destination = dest1, StoreDestinationStatus.Status = Consumed, Message = ''''\<rparr>,
            \<lparr>StoreDestinationStatus.Destination = dest2, StoreDestinationStatus.Status = Pending, Message = ''''\<rparr>],
         LastUpdate := 2\<rparr>"
       and pre = "[\<lparr>StoreDestinationStatus.Destination = dest1, StoreDestinationStatus.Status = Consumed, Message = ''''\<rparr>]"
       and d = "\<lparr>StoreDestinationStatus.Destination = dest2, StoreDestinationStatus.Status = Pending, Message = ''''\<rparr>"
       and post = "[]"]
  by (simp add: deliveryStore_first_call)
     (simp add: deliveryStore1_def emptyStore_def createObjectCollectionID_def exampleObject_def
       exampleMetaData_def exampleClock_def isDest_def dest1_def dest2_def deliveredEntry_def
       Consumed_def Pending_def common_Error_def)

section \<open>Chunked upload: the handle map\<close>

text \<open>
  C8. When \<^verbatim>\<open>AppendObjectData\<close> returns nil, the map \<^verbatim>\<open>openFiles\<close> holds no handle for
  the object's key if the call carried \<^verbatim>\<open>isLastChunk\<close>, and it holds one otherwise.
\<close>

theorem AppendObjectData_openFiles:
  assumes "AppendObjectData orgID objectType objectID dataReader dataLength offs totalSize
             isFirstChunk isLastChunk s = (None, s')"
  shows "if isLastChunk
         then openFiles s' (createObjectCollectionID orgID objectType objectID) = None
         else openFiles s' (createObjectCollectionID orgID objectType objectID) \<noteq> None"
  using assms
  by (auto simp: AppendObjectData_def Let_def putFileHandle_def deleteFileHandle_def
      GridFile_Close_def
      split: if_splits sum.splits prod.splits option.splits)

text \<open>The three calls of spec scenario 2, evaluated on the model.\<close>

lemma upload_call1:
  "AppendObjectData ''O'' ''T'' ''X'' (BytesReader [65, 66, 67, 68]) 4 0 12 True False emptyStore
     = (None, uploadStore1)"
  by (simp add: AppendObjectData_def createObjectCollectionID_def removeFile_def createFile_def
      emptyStore_def Reader_Read_def AppendObjectData_write.simps GridFile_Write_def
      putFileHandle_def uploadStore1_def Let_def)


lemma upload_call3:
  "AppendObjectData ''O'' ''T'' ''X'' (BytesReader [69, 70, 71, 72]) 4 4 12 False True uploadStore2
     = (None, uploadStore3)"
  by (simp add: AppendObjectData_def createObjectCollectionID_def getFileHandle_def
      emptyStore_def Reader_Read_def chunkMap_def AppendObjectData_write.simps GridFile_Write_def
      GridFile_Close_def deleteFileHandle_def uploadStore2_def uploadStore3_def Let_def)

theorem AppendObjectData_openFiles_witness:
  "AppendObjectData ''O'' ''T'' ''X'' (BytesReader [65, 66, 67, 68]) 4 0 12 True False emptyStore
     = (None, uploadStore1)
   \<and> openFiles uploadStore1 (createObjectCollectionID ''O'' ''T'' ''X'') \<noteq> None
   \<and> AppendObjectData ''O'' ''T'' ''X'' (BytesReader [69, 70, 71, 72]) 4 4 12 False True uploadStore2
     = (None, uploadStore3)
   \<and> openFiles uploadStore3 (createObjectCollectionID ''O'' ''T'' ''X'') = None"
  using AppendObjectData_openFiles [OF upload_call1] AppendObjectData_openFiles [OF upload_call3]
    upload_call1 upload_call3
  by simp

section \<open>Chunked upload: the out-of-order window\<close>

lemma read_chunk:
  assumes "length data < 2 ^ 32"
  shows "(if 0 < (of_nat (length data) :: uint32)
          then Reader_Read (BytesReader data) (unat (of_nat (length data) :: uint32))
          else ReadAll (BytesReader data)) = (data, length data, None)"
proof -
  have u: "unat (of_nat (length data) :: uint32) = length data"
    using assms by (simp add: unat_of_nat)
  show ?thesis
  proof (cases "data = []")
    case True
    then show ?thesis by (simp add: ReadAll_def)
  next
    case False
    then have "0 < (of_nat (length data) :: uint32)"
      using u by (auto simp: word_greater_zero_iff simp flip: unat_0_iff)
    then show ?thesis
      using False u by (simp add: Reader_Read_def)
  qed
qed




lemma fcard_fmdom_fmupd_fresh:
  "k |\<notin>| fmdom m \<Longrightarrow> fcard (fmdom (fmupd k v m)) = Suc (fcard (fmdom m))"
  by (simp add: fcard_finsert_disjoint)

lemma appendCalls_append:
  "appendCalls orgID objectType objectID totalSize (xs @ ys) s =
     (case appendCalls orgID objectType objectID totalSize xs s of
        (e1, s1) \<Rightarrow>
          (case appendCalls orgID objectType objectID totalSize ys s1 of
             (e2, s2) \<Rightarrow> (e1 @ e2, s2)))"
  by (induction xs arbitrary: s) (auto split: prod.splits)



lemma of_nat_inj64:
  assumes "a < 2 ^ 64" and "b < 2 ^ 64"
  shows "(of_nat a :: int64) = of_nat b \<longleftrightarrow> a = b"
  using assms by (simp add: word_of_nat_eq_iff take_bit_nat_eq_self)









section \<open>Stored objects: receivers and consumers\<close>

lemma StoreObject_success:
  assumes "StoreObject clk metaData data status s = (None, s')"
  shows "\<exists>ob. objects s' (getObjectCollectionID metaData) = Some ob
           \<and> RemainingReceivers ob = ExpectedConsumers metaData
           \<and> RemainingConsumers ob = ExpectedConsumers metaData"
  using assms
  by (auto simp: StoreObject_def Let_def upsert_objects_def
      split: option.splits prod.splits sum.splits if_splits)

lemma ResetObjectRemainingConsumers_success:
  assumes "ResetObjectRemainingConsumers orgID objectType objectID s = (None, s')"
  shows "\<exists>ob. objects s (createObjectCollectionID orgID objectType objectID) = Some ob
           \<and> objects s' (createObjectCollectionID orgID objectType objectID) =
               Some (ob\<lparr>RemainingConsumers := ExpectedConsumers (object.MetaData ob),
                        LastUpdate := serverClock s + 1\<rparr>)"
  using assms
  by (auto simp: ResetObjectRemainingConsumers_def Let_def fetchOne_objects_def update_objects_def
      split: option.splits prod.splits sum.splits if_splits)

text \<open>
  C9. A \<^verbatim>\<open>StoreObject\<close> that returns nil has written the object's document with
  \<^verbatim>\<open>remaining-receivers\<close> and \<^verbatim>\<open>remaining-consumers\<close> both equal to
  \<^verbatim>\<open>metadata.expectedConsumers\<close>. A \<^verbatim>\<open>ResetObjectRemainingConsumers\<close> that returns nil
  has replaced the document by itself with \<^verbatim>\<open>remaining-consumers\<close> set to the expected
  consumers of its metadata and a new \<^verbatim>\<open>last-update\<close>: \<^verbatim>\<open>remaining-receivers\<close> is as
  before.
\<close>

theorem StoreObject_receivers_Reset_consumers:
  "(\<forall>s'. StoreObject clk metaData data status s = (None, s') \<longrightarrow>
      (\<exists>ob. objects s' (getObjectCollectionID metaData) = Some ob
            \<and> RemainingReceivers ob = ExpectedConsumers metaData
            \<and> RemainingConsumers ob = ExpectedConsumers metaData))
   \<and> (\<forall>s'. ResetObjectRemainingConsumers orgID objectType objectID s = (None, s') \<longrightarrow>
        (\<exists>ob ob'. objects s (createObjectCollectionID orgID objectType objectID) = Some ob
              \<and> objects s' (createObjectCollectionID orgID objectType objectID) = Some ob'
              \<and> ob' = ob\<lparr>RemainingConsumers := ExpectedConsumers (object.MetaData ob),
                          LastUpdate := serverClock s + 1\<rparr>
              \<and> RemainingReceivers ob' = RemainingReceivers ob))"
proof (intro conjI allI impI)
  fix s'
  assume "StoreObject clk metaData data status s = (None, s')"
  then show "\<exists>ob. objects s' (getObjectCollectionID metaData) = Some ob
            \<and> RemainingReceivers ob = ExpectedConsumers metaData
            \<and> RemainingConsumers ob = ExpectedConsumers metaData"
    by (rule StoreObject_success)
next
  fix s'
  assume "ResetObjectRemainingConsumers orgID objectType objectID s = (None, s')"
  from ResetObjectRemainingConsumers_success [OF this]
  show "\<exists>ob ob'. objects s (createObjectCollectionID orgID objectType objectID) = Some ob
              \<and> objects s' (createObjectCollectionID orgID objectType objectID) = Some ob'
              \<and> ob' = ob\<lparr>RemainingConsumers := ExpectedConsumers (object.MetaData ob),
                          LastUpdate := serverClock s + 1\<rparr>
              \<and> RemainingReceivers ob' = RemainingReceivers ob"
    by auto
qed

lemma StoreObject_example:
  "StoreObject exampleClock exampleMetaData (Some [1, 2, 3]) ReadyToSend emptyStore =
     (None,
      emptyStore\<lparr>objects := [''O:T:X'' \<mapsto>
          \<lparr>object.ID = ''O:T:X'', object.MetaData = exampleMetaData\<lparr>MetaData.InstanceID := 0\<rparr>,
           object.Status = ReadyToSend, RemainingConsumers = 2, RemainingReceivers = 2,
           Destinations = [], LastUpdate = 0\<rparr>],
        gridFS := [''O:T:X'' \<mapsto> [1, 2, 3]], serverClock := 1\<rparr>)"
  by (simp add: StoreObject_def Let_def getObjectCollectionID_def createObjectCollectionID_def
      exampleMetaData_def storeDataInFile_def emptyStore_def createDestinations_def
      fetchAll_destinations_def upsert_objects_def UnixNano_def exampleClock_def)

lemma Reset_example:
  "ResetObjectRemainingConsumers ''O'' ''T'' ''X'' consumedStore =
     (None,
      emptyStore\<lparr>objects := [''O:T:X'' \<mapsto>
          exampleObject\<lparr>RemainingConsumers := 2, RemainingReceivers := 1, LastUpdate := 2\<rparr>],
        serverClock := 2\<rparr>)"
  by (simp add: ResetObjectRemainingConsumers_def Let_def createObjectCollectionID_def
      consumedStore_def emptyStore_def fetchOne_objects_def update_objects_def exampleObject_def
      exampleMetaData_def)

text \<open>
  An object stored with two expected consumers has two remaining receivers; a reset in
  a state with no consumer and one receiver left restores the consumers only.
\<close>

theorem StoreObject_receivers_Reset_consumers_witness:
  "StoreObject exampleClock exampleMetaData (Some [1, 2, 3]) ReadyToSend emptyStore =
     (None,
      emptyStore\<lparr>objects := [''O:T:X'' \<mapsto>
          \<lparr>object.ID = ''O:T:X'', object.MetaData = exampleMetaData\<lparr>MetaData.InstanceID := 0\<rparr>,
           object.Status = ReadyToSend, RemainingConsumers = 2, RemainingReceivers = 2,
           Destinations = [], LastUpdate = 0\<rparr>],
        gridFS := [''O:T:X'' \<mapsto> [1, 2, 3]], serverClock := 1\<rparr>)
   \<and> ExpectedConsumers exampleMetaData = 2
   \<and> map_option RemainingReceivers (objects consumedStore ''O:T:X'') = Some 1
   \<and> map_option (\<lambda>ob. (RemainingConsumers ob, RemainingReceivers ob))
        (objects (snd (ResetObjectRemainingConsumers ''O'' ''T'' ''X'' consumedStore)) ''O:T:X'')
       = Some (2, 1)"
proof -
  note T = StoreObject_receivers_Reset_consumers
    [of exampleClock exampleMetaData "Some [1, 2, 3]" ReadyToSend emptyStore "''O''" "''T''" "''X''"]
  from T StoreObject_example
  have "\<exists>ob. objects (emptyStore\<lparr>objects := [''O:T:X'' \<mapsto>
          \<lparr>object.ID = ''O:T:X'', object.MetaData = exampleMetaData\<lparr>MetaData.InstanceID := 0\<rparr>,
           object.Status = ReadyToSend, RemainingConsumers = 2, RemainingReceivers = 2,
           Destinations = [], LastUpdate = 0\<rparr>],
        gridFS := [''O:T:X'' \<mapsto> [1, 2, 3]], serverClock := 1\<rparr>) (getObjectCollectionID exampleMetaData) = Some ob
            \<and> RemainingReceivers ob = ExpectedConsumers exampleMetaData
            \<and> RemainingConsumers ob = ExpectedConsumers exampleMetaData"
    by blast
  then show ?thesis
    using StoreObject_example Reset_example
    by (simp add: exampleMetaData_def consumedStore_def emptyStore_def exampleObject_def)
qed

section \<open>Replacing the payload: StoreObjectData\<close>

lemma copyDataToFile_single_shot:
  assumes "dbFault s = None"
  shows "copyDataToFile s k (BytesReader bytes) True True =
     (Inr (\<lparr>gfile = \<lparr>gfId = k, gfWriting = True, gfData = bytes, gfPos = 0\<rparr>, offset = 0, chunks = None\<rparr>,
           of_nat (length bytes)),
      s\<lparr>gridFS := (gridFS s)(k \<mapsto> bytes), openFiles := (openFiles s)(k := None)\<rparr>)"
  using assms
  by (simp add: copyDataToFile_def Let_def removeFile_def createFile_def ReadAll_def
      GridFile_Write_def GridFile_Close_def deleteFileHandle_def)

lemma StoreObjectData_missing:
  assumes "dbFault s = None"
    and "objects s (createObjectCollectionID orgID objectType objectID) = None"
  shows "StoreObjectData clk orgID objectType objectID dataReader s = ((False, None), s)"
  using assms by (simp add: StoreObjectData_def Let_def fetchOne_objects_def)

lemma StoreObjectData_existing:
  assumes "dbFault s = None"
    and "objects s (createObjectCollectionID orgID objectType objectID) = Some ob"
  shows "StoreObjectData clk orgID objectType objectID (BytesReader bytes) s =
     ((True, None),
      (let k = createObjectCollectionID orgID objectType objectID;
           ob1 = (if object.Status ob = NotReadyToSend
                  then ob\<lparr>object.Status := ReadyToSend, LastUpdate := serverClock s + 1\<rparr>
                  else if object.Status ob = ReadyToSend
                  then ob\<lparr>object.MetaData := (object.MetaData ob)\<lparr>MetaData.InstanceID := UnixNano clk\<rparr>,
                          LastUpdate := serverClock s + 1\<rparr>
                  else ob);
           ticks = (if object.Status ob = NotReadyToSend \<or> object.Status ob = ReadyToSend then 2 else 1)
       in s\<lparr>objects := (objects s)(k \<mapsto>
               ob1\<lparr>object.MetaData := (object.MetaData ob1)\<lparr>ObjectSize := of_nat (length bytes)\<rparr>\<rparr>),
             gridFS := (gridFS s)(k \<mapsto> bytes),
             serverClock := serverClock s + ticks,
             openFiles := (openFiles s)(k := None)\<rparr>))"
proof -
  let ?k = "createObjectCollectionID orgID objectType objectID"
  consider (nr) "object.Status ob = NotReadyToSend"
    | (r) "object.Status ob \<noteq> NotReadyToSend" "object.Status ob = ReadyToSend"
    | (o) "object.Status ob \<noteq> NotReadyToSend" "object.Status ob \<noteq> ReadyToSend"
    by blast
  then show ?thesis
  proof cases
    case nr
    then show ?thesis
      using assms
      by (simp add: StoreObjectData_def Let_def fetchOne_objects_def UpdateObjectStatus_def
          update_objects_def copyDataToFile_single_shot)
  next
    case r
    then show ?thesis
      using assms
      by (simp add: StoreObjectData_def Let_def fetchOne_objects_def
          update_objects_def copyDataToFile_single_shot)
  next
    case o
    then show ?thesis
      using assms
      by (simp add: StoreObjectData_def Let_def fetchOne_objects_def
          update_objects_def copyDataToFile_single_shot)
  qed
qed
text \<open>
  C5. On a reachable backend: when no object with the key exists,
  \<^verbatim>\<open>StoreObjectData\<close> returns \<^verbatim>\<open>updated = false\<close> with no error and the state is
  unchanged. When the object exists and the reader delivers its bytes, the call
  returns \<^verbatim>\<open>updated = true\<close> with no error; the blob of the key is the bytes read; the
  object's \<^verbatim>\<open>metadata.object-size\<close> is their number; a status NotReadyToSend has become
  ReadyToSend; with a status ReadyToSend the instance id is the current time in
  nanoseconds; nothing else of the object changes but its \<^verbatim>\<open>last-update\<close> token.
\<close>

theorem StoreObjectData_payload_replacement:
  assumes "dbFault s = None"
  shows "case objects s (createObjectCollectionID orgID objectType objectID) of
           None \<Rightarrow> StoreObjectData clk orgID objectType objectID dataReader s = ((False, None), s)
         | Some ob \<Rightarrow>
             StoreObjectData clk orgID objectType objectID (BytesReader bytes) s =
               ((True, None),
                (let k = createObjectCollectionID orgID objectType objectID;
                     ob1 = (if object.Status ob = NotReadyToSend
                            then ob\<lparr>object.Status := ReadyToSend, LastUpdate := serverClock s + 1\<rparr>
                            else if object.Status ob = ReadyToSend
                            then ob\<lparr>object.MetaData :=
                                      (object.MetaData ob)\<lparr>MetaData.InstanceID := UnixNano clk\<rparr>,
                                    LastUpdate := serverClock s + 1\<rparr>
                            else ob);
                     ticks = (if object.Status ob = NotReadyToSend \<or> object.Status ob = ReadyToSend
                              then 2 else 1)
                 in s\<lparr>objects := (objects s)(k \<mapsto>
                         ob1\<lparr>object.MetaData :=
                               (object.MetaData ob1)\<lparr>ObjectSize := of_nat (length bytes)\<rparr>\<rparr>),
                       gridFS := (gridFS s)(k \<mapsto> bytes),
                       serverClock := serverClock s + ticks,
                       openFiles := (openFiles s)(k := None)\<rparr>))"
proof (cases "objects s (createObjectCollectionID orgID objectType objectID)")
  case None
  then show ?thesis
    using StoreObjectData_missing [OF assms] by simp
next
  case (Some ob)
  then show ?thesis
    using StoreObjectData_existing [OF assms Some] by simp
qed

text \<open>
  On the store of spec scenario 4, whose object is ready to send: new data of three
  bytes gives the object the size 3 and the instance id of the clock; for a key that
  is not stored the call reports \<^verbatim>\<open>updated = false\<close>.
\<close>

theorem StoreObjectData_payload_replacement_witness:
  "StoreObjectData exampleClock ''O'' ''T'' ''missing'' (BytesReader [1, 2, 3]) deliveryStore
     = ((False, None), deliveryStore)
   \<and> fst (StoreObjectData exampleClock ''O'' ''T'' ''X'' (BytesReader [1, 2, 3]) deliveryStore)
     = (True, None)
   \<and> gridFS (snd (StoreObjectData exampleClock ''O'' ''T'' ''X'' (BytesReader [1, 2, 3]) deliveryStore))
        ''O:T:X'' = Some [1, 2, 3]
   \<and> map_option (\<lambda>ob. (object.Status ob, ObjectSize (object.MetaData ob),
                        MetaData.InstanceID (object.MetaData ob)))
        (objects (snd (StoreObjectData exampleClock ''O'' ''T'' ''X'' (BytesReader [1, 2, 3]) deliveryStore))
           ''O:T:X'')
     = Some (''ready'', 3, 0)"
proof -
  have f: "dbFault deliveryStore = None"
    by (simp add: deliveryStore_def emptyStore_def)
  show ?thesis
    using StoreObjectData_payload_replacement
        [OF f, where orgID = "''O''" and objectType = "''T''" and objectID = "''missing''"
           and clk = exampleClock and dataReader = "BytesReader [1, 2, 3]" and bytes = "[1, 2, 3]"]
      StoreObjectData_payload_replacement
        [OF f, where orgID = "''O''" and objectType = "''T''" and objectID = "''X''"
           and clk = exampleClock and dataReader = "BytesReader [1, 2, 3]" and bytes = "[1, 2, 3]"]
    by (simp add: deliveryStore_def emptyStore_def createObjectCollectionID_def exampleObject_def
        exampleMetaData_def ReadyToSend_def NotReadyToSend_def UnixNano_def exampleClock_def Let_def)
qed

section \<open>Notifications that are due\<close>

text \<open>
  C7, as the code has it. On a reachable backend \<^verbatim>\<open>RetrieveNotifications\<close> returns,
  in the order of the collection, exactly these notifications. With no destination
  given (type and id both empty): those with status Getdata, and those whose resend
  time is at most the current Unix time and whose status is Update, Received,
  Consumed, Data, Delete or Deleted. With a destination given: those of that
  destination (organization, type and id) whose status is Update, Received, Consumed,
  Getdata, Delete or Deleted, and, only when \<^verbatim>\<open>retrieveReceived\<close> is set, also those
  whose status is Data or ReceivedByDestination.
\<close>

theorem RetrieveNotifications_selection:
  assumes "dbFault s = None"
  shows "RetrieveNotifications clk orgID destType destID retrieveReceived s =
     Inr (filter
            (\<lambda>n. if destType = '''' \<and> destID = ''''
                 then Notification.Status n = Getdata
                      \<or> (sint (ResendTime n) \<le> sint (Unix clk)
                          \<and> Notification.Status n \<in> {Update, Received, Consumed, Data, Delete, Deleted})
                 else Notification.DestOrgID n = orgID
                      \<and> Notification.DestType n = destType
                      \<and> Notification.DestID n = destID
                      \<and> (Notification.Status n \<in> {Update, Received, Consumed, Getdata, Delete, Deleted}
                           \<or> (retrieveReceived
                               \<and> Notification.Status n \<in> {Data, ReceivedByDestination})))
            (map Notification (notifications s)))"
proof -
  have sel: "map Notification (filter Q xs) = filter P (map Notification xs)"
    if "\<And>d. Q d = P (Notification d)"
    for P :: "Notification \<Rightarrow> bool" and Q :: "notificationObject \<Rightarrow> bool"
      and xs :: "notificationObject list"
    using that by (induction xs) simp_all
  show ?thesis
    using assms
    by (auto simp: RetrieveNotifications_def fetchAll_notifications_def Let_def intro!: sel)
qed

text \<open>
  The claim as the spec words it fails: with a destination given and
  \<^verbatim>\<open>retrieveReceived\<close> not set, a notification of that destination with status Data
  is not returned. Of the two notifications of the destination only the one with
  status Update comes back.
\<close>

theorem RetrieveNotifications_Data_not_returned:
  "RetrieveNotifications exampleClock ''O'' ''edge'' ''d1'' False notificationStore =
     Inr [dataNotification\<lparr>Notification.ObjectID := ''Y'', Notification.Status := Update\<rparr>]
   \<and> map Notification (notifications notificationStore) =
       [dataNotification,
        dataNotification\<lparr>Notification.ObjectID := ''Y'', Notification.Status := Update\<rparr>]
   \<and> Notification.Status dataNotification = Data
   \<and> Notification.DestOrgID dataNotification = ''O''
   \<and> Notification.DestType dataNotification = ''edge''
   \<and> Notification.DestID dataNotification = ''d1''"
  by (simp add: RetrieveNotifications_def fetchAll_notifications_def Let_def notificationStore_def
      emptyStore_def dataNotification_def Data_def Update_def Received_def Consumed_def
      Getdata_def Delete_def Deleted_def)

text \<open>With \<^verbatim>\<open>retrieveReceived\<close> set, the notification with status Data is returned too.\<close>

theorem RetrieveNotifications_selection_witness:
  "dbFault notificationStore = None
   \<and> RetrieveNotifications exampleClock ''O'' ''edge'' ''d1'' True notificationStore =
       Inr [dataNotification,
            dataNotification\<lparr>Notification.ObjectID := ''Y'', Notification.Status := Update\<rparr>]
   \<and> RetrieveNotifications exampleClock '''' '''' '''' False notificationStore =
       Inr [dataNotification,
            dataNotification\<lparr>Notification.ObjectID := ''Y'', Notification.Status := Update\<rparr>]"
  using RetrieveNotifications_selection [of notificationStore exampleClock "''O''" "''edge''" "''d1''" True]
    RetrieveNotifications_selection [of notificationStore exampleClock "''''" "''''" "''''" False]
  by (simp add: notificationStore_def emptyStore_def dataNotification_def Data_def Update_def
      Received_def Consumed_def Getdata_def Delete_def Deleted_def ReceivedByDestination_def
      Unix_def exampleClock_def)

section \<open>Reading at the end of a blob\<close>

lemma sint_of_nat64:
  assumes "n < 2 ^ 63"
  shows "sint (of_nat n :: int64) = int n"
proof -
  have "int n < 2 ^ 63"
    using assms by (metis of_nat_less_iff of_nat_numeral of_nat_power)
  then show ?thesis
    by (simp add: signed_of_nat signed_take_bit_int_eq_self)
qed

lemma ReadObjectData_at_size:
  assumes "dbFault s = None"
    and "gridFS s (createObjectCollectionID orgID objectType objectID) = Some content"
  shows "ReadObjectData orgID objectType objectID sz (of_nat (length content)) s = (Some [], True, 0, None)"
  using assms
  by (simp add: ReadObjectData_def Let_def openFile_def GridFile_Size_def)

lemma File_ReadAt_at_size:
  assumes "int (length content) + int len < 2 ^ 63"
  shows "File_ReadAt content len (of_nat (length content)) =
           (replicate len 0, 0, if 0 < len then Some EOF else None)"
proof -
  have "int (length content) < 2 ^ 63"
    using assms by linarith
  then have "length content < 2 ^ 63"
    by (metis of_nat_less_iff of_nat_numeral of_nat_power)
  then have s: "sint (of_nat (length content) :: int64) = int (length content)"
    by (rule sint_of_nat64)
  have "\<not> (2 ^ 63 \<le> int (length content) + int len)"
    using assms by linarith
  then show ?thesis
    by (simp add: File_ReadAt_def s)
qed

lemma GetDataChunk_at_size:
  assumes "parse uri = Some u" and "EqualFold (Scheme u) ''file''"
    and "fs (Path u) = Some content" and "0 \<le> sz" and "sz \<le> int maxAlloc"
    and "int (length content) + sz < 2 ^ 63"
  shows "GetDataChunk maxAlloc parse fs uri sz (of_nat (length content)) =
           (Some (replicate (nat sz) 0), True, 0, None)"
proof -
  have "int (length content) + int (nat sz) < 2 ^ 63"
    using assms(4,6) by simp
  from File_ReadAt_at_size [OF this]
  have rd: "File_ReadAt content (nat sz) (of_nat (length content)) =
          (replicate (nat sz) 0, 0, if 0 < nat sz then Some EOF else None)" .
  show ?thesis
    using assms(1,2,3,4,5) by (simp add: GetDataChunk_def rd)
qed

text \<open>
  The claim as the spec words it fails on the file backend: a read of two bytes at
  offset 3 of a file of three bytes returns the buffer of two bytes that \<^verbatim>\<open>make\<close>
  allocated, not an empty slice; the count 0 says that none of them was read.
\<close>

theorem GetDataChunk_at_size_returns_buffer:
  "GetDataChunk exampleMaxAlloc exampleParse exampleFiles ''file:///data/x'' 2 3
     = (Some [0, 0], True, 0, None)
   \<and> exampleFiles ''/data/x'' = Some [1, 2, 3]"
proof -
  have m: "\<not> exampleMaxAlloc < 2"
    by (simp add: exampleMaxAlloc_def)
  have r: "File_ReadAt [1, 2, 3] 2 3 = ([0, 0], 0, Some EOF)"
    by (simp add: File_ReadAt_def eval_nat_numeral)
  show ?thesis
    by (simp add: GetDataChunk_def exampleParse_def exampleFiles_def EqualFold_def m r)
qed

text \<open>
  C6, as the code has it. For a stored blob of size S and a read at offset exactly S:
  \<^verbatim>\<open>ReadObjectData\<close> on the database backend returns an empty slice, \<^verbatim>\<open>eof = true\<close>,
  0 bytes and no error, for every requested size; \<^verbatim>\<open>GetDataChunk\<close> on the file backend
  returns \<^verbatim>\<open>eof = true\<close>, 0 bytes and no error for every requested size from 0 up to
  the largest size that \<^verbatim>\<open>make\<close> allocates, as long as S plus the size stays below
  \<open>2^63\<close>, and its slice is the buffer of the requested size, zero-filled.
\<close>

theorem read_at_blob_size:
  "(dbFault s = None \<and> gridFS s (createObjectCollectionID orgID objectType objectID) = Some content
      \<longrightarrow> ReadObjectData orgID objectType objectID sz (of_nat (length content)) s
            = (Some [], True, 0, None))
   \<and> (parse uri = Some u \<and> EqualFold (Scheme u) ''file'' \<and> fs (Path u) = Some content
        \<and> 0 \<le> sz \<and> sz \<le> int maxAlloc \<and> int (length content) + sz < 2 ^ 63
      \<longrightarrow> GetDataChunk maxAlloc parse fs uri sz (of_nat (length content))
            = (Some (replicate (nat sz) 0), True, 0, None))"
  using ReadObjectData_at_size [of s orgID objectType objectID content sz]
    GetDataChunk_at_size [of parse uri u fs content sz maxAlloc]
  by blast

text \<open>
  On a blob of three bytes: both backends read at offset 3, the file backend with a
  buffer of two bytes and with an empty buffer.
\<close>

theorem read_at_blob_size_witness:
  "ReadObjectData ''O'' ''T'' ''X'' 2 3 blobStore = (Some [], True, 0, None)
   \<and> GetDataChunk exampleMaxAlloc exampleParse exampleFiles ''file:///data/x'' 2 3
       = (Some [0, 0], True, 0, None)
   \<and> GetDataChunk exampleMaxAlloc exampleParse exampleFiles ''file:///data/x'' 0 3
       = (Some [], True, 0, None)
   \<and> gridFS blobStore ''O:T:X'' = Some [1, 2, 3]"
proof -
  have g: "dbFault blobStore = None
      \<and> gridFS blobStore (createObjectCollectionID ''O'' ''T'' ''X'') = Some [1, 2, 3]"
    by (simp add: blobStore_def emptyStore_def createObjectCollectionID_def)
  have f: "exampleParse ''file:///data/x'' = Some \<lparr>Scheme = ''file'', Path = ''/data/x''\<rparr>
      \<and> EqualFold (Scheme \<lparr>Scheme = ''file'', Path = ''/data/x''\<rparr>) ''file''
      \<and> exampleFiles (Path \<lparr>Scheme = ''file'', Path = ''/data/x''\<rparr>) = Some [1, 2, 3]"
    by (simp add: exampleParse_def exampleFiles_def EqualFold_def)
  have m: "(2 :: int) \<le> int exampleMaxAlloc \<and> (0 :: int) \<le> int exampleMaxAlloc"
    by (simp add: exampleMaxAlloc_def)
  from read_at_blob_size [of blobStore "''O''" "''T''" "''X''" "[1, 2, 3]" 2 exampleParse
      "''file:///data/x''" "\<lparr>Scheme = ''file'', Path = ''/data/x''\<rparr>" exampleFiles exampleMaxAlloc] g f m
  have a: "ReadObjectData ''O'' ''T'' ''X'' 2 (of_nat (length [1, 2, 3 :: byte])) blobStore
             = (Some [], True, 0, None)
       \<and> GetDataChunk exampleMaxAlloc exampleParse exampleFiles ''file:///data/x'' 2
             (of_nat (length [1, 2, 3 :: byte]))
             = (Some (replicate (nat 2) 0), True, 0, None)"
    by simp
  from read_at_blob_size [of blobStore "''O''" "''T''" "''X''" "[1, 2, 3]" 0 exampleParse
      "''file:///data/x''" "\<lparr>Scheme = ''file'', Path = ''/data/x''\<rparr>" exampleFiles exampleMaxAlloc] f m
  have b: "GetDataChunk exampleMaxAlloc exampleParse exampleFiles ''file:///data/x'' 0
             (of_nat (length [1, 2, 3 :: byte]))
             = (Some (replicate (nat 0) 0), True, 0, None)"
    by simp
  show ?thesis
    using a b g by (simp add: eval_nat_numeral createObjectCollectionID_def)
qed

section \<open>Chunks appended in any order\<close>

subsection \<open>Chunks that cover a range and their offsets\<close>

lemma length_layout: "length (layout a cs) = length cs"
  by (induction cs arbitrary: a) simp_all

lemma map_snd_layout: "map snd (layout a cs) = cs"
  by (induction cs arbitrary: a) simp_all

lemma layout_nth:
  "i < length cs \<Longrightarrow> layout a cs ! i = (a + chunkOffset cs i, cs ! i)"
proof (induction cs arbitrary: a i)
  case Nil
  then show ?case by simp
next
  case (Cons c cs)
  show ?case
  proof (cases i)
    case 0
    then show ?thesis by (simp add: chunkOffset_def)
  next
    case (Suc i')
    then show ?thesis
      using Cons.prems Cons.IH [of i' "a + length c"] by (simp add: chunkOffset_def)
  qed
qed

lemma chunkOffset_Suc:
  "j < length cs \<Longrightarrow> chunkOffset cs (Suc j) = chunkOffset cs j + length (cs ! j)"
  by (simp add: chunkOffset_def take_Suc_conv_app_nth)

lemma chunkOffset_le_total: "chunkOffset cs i \<le> length (concat cs)"
proof -
  have "concat cs = concat (take i cs) @ concat (drop i cs)"
    by (metis append_take_drop_id concat_append)
  then show ?thesis
    by (metis chunkOffset_def le_add1 length_append)
qed

lemma chunkOffset_strict:
  assumes "\<forall>c\<in>set cs. c \<noteq> []" and "i < j" and "j \<le> length cs"
  shows "chunkOffset cs i < chunkOffset cs j"
  using assms(2,3)
proof (induction j)
  case 0
  then show ?case by simp
next
  case (Suc j)
  have jl: "j < length cs" using Suc.prems by simp
  then have "cs ! j \<noteq> []" using assms(1) by simp
  then have step: "chunkOffset cs j < chunkOffset cs (Suc j)"
    using chunkOffset_Suc [OF jl] by simp
  show ?case
  proof (cases "i = j")
    case True
    then show ?thesis using step by simp
  next
    case False
    then have "i < j" using Suc.prems by simp
    then have "chunkOffset cs i < chunkOffset cs j"
      using Suc.IH jl by simp
    then show ?thesis using step by simp
  qed
qed

lemma woff_inj:
  assumes ne: "\<forall>c\<in>set cs. c \<noteq> []" and tot: "length (concat cs) < 2 ^ 63"
    and i: "i \<le> length cs" and j: "j \<le> length cs"
    and eq: "(of_nat (chunkOffset cs i) :: int64) = of_nat (chunkOffset cs j)"
  shows "i = j"
proof -
  have b: "chunkOffset cs i < 2 ^ 64" "chunkOffset cs j < 2 ^ 64"
    using chunkOffset_le_total [of cs i] chunkOffset_le_total [of cs j] tot by simp_all
  from eq of_nat_inj64 [OF b] have e: "chunkOffset cs i = chunkOffset cs j"
    by blast
  show ?thesis
  proof (rule ccontr)
    assume "i \<noteq> j"
    then consider "i < j" | "j < i" by linarith
    then show False
      using chunkOffset_strict [OF ne _ j, of i] chunkOffset_strict [OF ne _ i, of j] e
      by cases simp_all
  qed
qed

subsection \<open>The write loop on an assembled handle\<close>

lemma write_unfold:
  assumes "gfWriting (gfile fh)"
  shows "AppendObjectData_write None fh data =
     (let fh1 = fh\<lparr>gfile := (gfile fh)\<lparr>gfData := gfData (gfile fh) @ data\<rparr>,
                    offset := offset fh + of_nat (length data)\<rparr>
      in case chunks fh of
           None \<Rightarrow> (None, fh1)
         | Some m \<Rightarrow>
             (case fmlookup m (offset fh1) of
                None \<Rightarrow> (None, fh1)
              | Some data' \<Rightarrow>
                  AppendObjectData_write None (fh1\<lparr>chunks := Some (fmdrop (offset fh1) m)\<rparr>) data'))"
  using assms
  by (subst AppendObjectData_write.simps) (simp add: GridFile_Write_def Let_def)

lemma write_loop_assembles:
  assumes ne: "\<forall>c\<in>set cs. c \<noteq> []" and tot: "length (concat cs) < 2 ^ 63"
    and j: "j < length cs"
    and T: "T \<subseteq> {i. j < i \<and> i < length cs}"
    and fl: "gfile fh = \<lparr>gfId = docId, gfWriting = True, gfData = concat (take j cs), gfPos = 0\<rparr>"
    and off: "offset fh = of_nat (chunkOffset cs j)"
    and pend: "\<forall>k d. fmlookup (chunkMap fh) k = Some d \<longleftrightarrow>
                 (\<exists>i\<in>T. k = of_nat (chunkOffset cs i) \<and> d = cs ! i)"
  shows "\<exists>j' fh'. AppendObjectData_write None fh (cs ! j) = (None, fh')
      \<and> j < j' \<and> j' \<le> length cs
      \<and> (\<forall>i. j < i \<and> i < j' \<longrightarrow> i \<in> T) \<and> j' \<notin> T
      \<and> gfile fh' = \<lparr>gfId = docId, gfWriting = True, gfData = concat (take j' cs), gfPos = 0\<rparr>
      \<and> offset fh' = of_nat (chunkOffset cs j')
      \<and> (\<forall>k d. fmlookup (chunkMap fh') k = Some d \<longleftrightarrow>
            (\<exists>i\<in>T. j' < i \<and> k = of_nat (chunkOffset cs i) \<and> d = cs ! i))"
  using j T fl off pend
proof (induction "length cs - j" arbitrary: j fh T rule: less_induct)
  case less
  note j = less.prems(1) and T = less.prems(2) and fl = less.prems(3)
    and off = less.prems(4) and pend = less.prems(5)
  let ?fh1 = "fh\<lparr>gfile := (gfile fh)\<lparr>gfData := gfData (gfile fh) @ cs ! j\<rparr>,
                   offset := offset fh + of_nat (length (cs ! j))\<rparr>"
  have w: "gfWriting (gfile fh)" using fl by simp
  have file1: "gfile ?fh1 = \<lparr>gfId = docId, gfWriting = True, gfData = concat (take (Suc j) cs), gfPos = 0\<rparr>"
    using fl j by (simp add: take_Suc_conv_app_nth)
  have off1: "offset ?fh1 = of_nat (chunkOffset cs (Suc j))"
    using off chunkOffset_Suc [OF j] by simp
  have cm1: "chunkMap ?fh1 = chunkMap fh"
    by (simp add: chunkMap_def)
  have inj: "i = Suc j" if "i \<in> T" "(of_nat (chunkOffset cs i) :: int64) = of_nat (chunkOffset cs (Suc j))" for i
    using woff_inj [OF ne tot _ _ that(2)] that(1) T j by auto
  show ?case
  proof (cases "Suc j \<in> T")
    case False
    have none: "fmlookup (chunkMap fh) (offset ?fh1) = None"
    proof (cases "fmlookup (chunkMap fh) (offset ?fh1)")
      case None
      then show ?thesis .
    next
      case (Some d)
      then obtain i where "i \<in> T" "offset ?fh1 = of_nat (chunkOffset cs i)"
        using pend by blast
      then have "i = Suc j" using inj off1 by metis
      then show ?thesis using \<open>i \<in> T\<close> False by simp
    qed
    have res: "AppendObjectData_write None fh (cs ! j) = (None, ?fh1)"
      using none
      by (subst write_unfold [OF w]) (auto simp: Let_def chunkMap_def split: option.splits)
    have pend1: "\<forall>k d. fmlookup (chunkMap ?fh1) k = Some d \<longleftrightarrow>
            (\<exists>i\<in>T. Suc j < i \<and> k = of_nat (chunkOffset cs i) \<and> d = cs ! i)"
    proof (intro allI)
      fix k :: int64 and d :: "byte list"
      have "(\<exists>i\<in>T. k = of_nat (chunkOffset cs i) \<and> d = cs ! i) \<longleftrightarrow>
            (\<exists>i\<in>T. Suc j < i \<and> k = of_nat (chunkOffset cs i) \<and> d = cs ! i)"
        using T False by (metis (mono_tags, lifting) Suc_lessI mem_Collect_eq subsetD)
      then show "fmlookup (chunkMap ?fh1) k = Some d \<longleftrightarrow>
            (\<exists>i\<in>T. Suc j < i \<and> k = of_nat (chunkOffset cs i) \<and> d = cs ! i)"
        using pend cm1 by simp
    qed
    show ?thesis
      apply (rule exI [of _ "Suc j"], rule exI [of _ ?fh1])
      using res j T False file1 off1 pend1 by auto
  next
    case True
    then have sj: "Suc j < length cs" using T by auto
    have hit: "fmlookup (chunkMap fh) (offset ?fh1) = Some (cs ! Suc j)"
      using pend True off1 by auto
    then obtain m where m: "chunks fh = Some m"
      by (cases "chunks fh") (simp_all add: chunkMap_def)
    then have hitm: "fmlookup m (offset ?fh1) = Some (cs ! Suc j)"
      using hit by (simp add: chunkMap_def)
    let ?fh2 = "?fh1\<lparr>chunks := Some (fmdrop (offset ?fh1) m)\<rparr>"
    have res: "AppendObjectData_write None fh (cs ! j) = AppendObjectData_write None ?fh2 (cs ! Suc j)"
      using m hitm by (subst write_unfold [OF w]) (simp add: Let_def)
    let ?T' = "T - {Suc j}"
    have T': "?T' \<subseteq> {i. Suc j < i \<and> i < length cs}"
      using T by auto
    have file2: "gfile ?fh2 = \<lparr>gfId = docId, gfWriting = True, gfData = concat (take (Suc j) cs), gfPos = 0\<rparr>"
      using file1 by simp
    have off2: "offset ?fh2 = of_nat (chunkOffset cs (Suc j))"
      using off1 by simp
    have pend2: "\<forall>k d. fmlookup (chunkMap ?fh2) k = Some d \<longleftrightarrow>
            (\<exists>i\<in>?T'. k = of_nat (chunkOffset cs i) \<and> d = cs ! i)"
    proof (intro allI)
      fix k :: int64 and d :: "byte list"
      have "fmlookup (chunkMap ?fh2) k = Some d \<longleftrightarrow>
              k \<noteq> of_nat (chunkOffset cs (Suc j)) \<and> fmlookup (chunkMap fh) k = Some d"
        using m off1 by (auto simp: chunkMap_def)
      also have "\<dots> \<longleftrightarrow> k \<noteq> of_nat (chunkOffset cs (Suc j)) \<and>
                    (\<exists>i\<in>T. k = of_nat (chunkOffset cs i) \<and> d = cs ! i)"
        using pend by simp
      also have "\<dots> \<longleftrightarrow> (\<exists>i\<in>?T'. k = of_nat (chunkOffset cs i) \<and> d = cs ! i)"
        using inj by auto
      finally show "fmlookup (chunkMap ?fh2) k = Some d \<longleftrightarrow>
            (\<exists>i\<in>?T'. k = of_nat (chunkOffset cs i) \<and> d = cs ! i)" .
    qed
    have "length cs - Suc j < length cs - j" using j by simp
    from less.hyps [OF this sj T' file2 off2 pend2]
    obtain j' fh' where IH:
      "AppendObjectData_write None ?fh2 (cs ! Suc j) = (None, fh')"
      "Suc j < j'" "j' \<le> length cs"
      "\<forall>i. Suc j < i \<and> i < j' \<longrightarrow> i \<in> ?T'" "j' \<notin> ?T'"
      "gfile fh' = \<lparr>gfId = docId, gfWriting = True, gfData = concat (take j' cs), gfPos = 0\<rparr>"
      "offset fh' = of_nat (chunkOffset cs j')"
      "\<forall>k d. fmlookup (chunkMap fh') k = Some d \<longleftrightarrow>
            (\<exists>i\<in>?T'. j' < i \<and> k = of_nat (chunkOffset cs i) \<and> d = cs ! i)"
      by blast
    have a: "\<forall>i. j < i \<and> i < j' \<longrightarrow> i \<in> T"
      using IH(4) True by (metis DiffD1 Suc_lessI)
    have b: "j' \<notin> T" using IH(5) IH(2) by auto
    have c: "\<forall>k d. fmlookup (chunkMap fh') k = Some d \<longleftrightarrow>
            (\<exists>i\<in>T. j' < i \<and> k = of_nat (chunkOffset cs i) \<and> d = cs ! i)"
      using IH(8) IH(2) by auto
    show ?thesis
      apply (rule exI [of _ j'], rule exI [of _ fh'])
      using res IH(1,2,3,6,7) a b c by auto
  qed
qed

lemma layout_inj:
  assumes ne: "\<forall>c\<in>set cs. c \<noteq> []"
    and i: "i < length cs" and j: "j < length cs"
    and eq: "layout 0 cs ! i = layout 0 cs ! j"
  shows "i = j"
proof (rule ccontr)
  assume "i \<noteq> j"
  then consider "i < j" | "j < i" by linarith
  then have "chunkOffset cs i \<noteq> chunkOffset cs j"
    using chunkOffset_strict [OF ne, of i j] chunkOffset_strict [OF ne, of j i] i j
    by cases simp_all
  then show False
    using eq by (simp add: layout_nth [OF i] layout_nth [OF j])
qed

lemma assembled_fresh:
  "assembled docId cs {}
     \<lparr>gfile = \<lparr>gfId = docId, gfWriting = True, gfData = [], gfPos = 0\<rparr>, offset = 0, chunks = None\<rparr>"
  unfolding assembled_def
  by (rule exI [of _ 0]) (simp add: chunkOffset_def chunkMap_def)

lemma handle_step:
  assumes ne: "\<forall>c\<in>set cs. c \<noteq> []" and tot: "length (concat cs) < 2 ^ 63"
    and i: "i < length cs" and fresh: "layout 0 cs ! i \<notin> sent"
    and A: "assembled docId cs sent fh"
    and win: "of_nat (chunkOffset cs i) \<noteq> offset fh \<longrightarrow> fcard (fmdom (chunkMap fh)) \<le> 100"
  shows "\<exists>fh'. placeChunk None fh (of_nat (chunkOffset cs i)) (cs ! i) = (None, fh')
            \<and> assembled docId cs (insert (layout 0 cs ! i) sent) fh'"
proof -
  let ?segs = "layout 0 cs"
  from A obtain j where jN: "j \<le> length cs"
    and before: "\<forall>i<j. ?segs ! i \<in> sent"
    and gap: "j < length cs \<longrightarrow> ?segs ! j \<notin> sent"
    and fl: "gfile fh = \<lparr>gfId = docId, gfWriting = True, gfData = concat (take j cs), gfPos = 0\<rparr>"
    and off: "offset fh = of_nat (chunkOffset cs j)"
    and pend: "\<forall>k d. fmlookup (chunkMap fh) k = Some d \<longleftrightarrow>
               (\<exists>i<length cs. j < i \<and> ?segs ! i \<in> sent
                    \<and> k = of_nat (chunkOffset cs i) \<and> d = cs ! i)"
    unfolding assembled_def by blast
  have ji: "j \<le> i"
    using before fresh by (meson not_le_imp_less)
  show ?thesis
  proof (cases "(of_nat (chunkOffset cs i) :: int64) = offset fh")
    case True
    then have "i = j"
      using woff_inj [OF ne tot _ jN, of i] i off by simp
    then have j: "j < length cs" using i by simp
    let ?T = "{i'. j < i' \<and> i' < length cs \<and> ?segs ! i' \<in> sent}"
    have T: "?T \<subseteq> {i. j < i \<and> i < length cs}" by auto
    have pendT: "\<forall>k d. fmlookup (chunkMap fh) k = Some d \<longleftrightarrow>
                 (\<exists>i\<in>?T. k = of_nat (chunkOffset cs i) \<and> d = cs ! i)"
      using pend by auto
    from write_loop_assembles [OF ne tot j T fl off pendT]
    obtain j' fh' where L:
      "AppendObjectData_write None fh (cs ! j) = (None, fh')"
      "j < j'" "j' \<le> length cs"
      "\<forall>i. j < i \<and> i < j' \<longrightarrow> i \<in> ?T" "j' \<notin> ?T"
      "gfile fh' = \<lparr>gfId = docId, gfWriting = True, gfData = concat (take j' cs), gfPos = 0\<rparr>"
      "offset fh' = of_nat (chunkOffset cs j')"
      "\<forall>k d. fmlookup (chunkMap fh') k = Some d \<longleftrightarrow>
            (\<exists>i\<in>?T. j' < i \<and> k = of_nat (chunkOffset cs i) \<and> d = cs ! i)"
      by blast
    have b1: "\<forall>i'<j'. ?segs ! i' \<in> insert (?segs ! j) sent"
    proof (intro allI impI)
      fix i' assume "i' < j'"
      then consider "i' < j" | "i' = j" | "j < i'" "i' < j'" by linarith
      then show "?segs ! i' \<in> insert (?segs ! j) sent"
        using before L(4) by cases auto
    qed
    have b2: "j' < length cs \<longrightarrow> ?segs ! j' \<notin> insert (?segs ! j) sent"
    proof
      assume j': "j' < length cs"
      have "?segs ! j' \<noteq> ?segs ! j"
        using layout_inj [OF ne j' j] L(2) by auto
      moreover have "?segs ! j' \<notin> sent"
        using L(5) L(2) j' by simp
      ultimately show "?segs ! j' \<notin> insert (?segs ! j) sent" by simp
    qed
    have b3: "\<forall>k d. fmlookup (chunkMap fh') k = Some d \<longleftrightarrow>
               (\<exists>i<length cs. j' < i \<and> ?segs ! i \<in> insert (?segs ! j) sent
                    \<and> k = of_nat (chunkOffset cs i) \<and> d = cs ! i)"
    proof (intro allI)
      fix k :: int64 and d :: "byte list"
      have "(\<exists>i\<in>?T. j' < i \<and> k = of_nat (chunkOffset cs i) \<and> d = cs ! i) \<longleftrightarrow>
            (\<exists>i<length cs. j' < i \<and> ?segs ! i \<in> insert (?segs ! j) sent
                    \<and> k = of_nat (chunkOffset cs i) \<and> d = cs ! i)"
      proof
        assume "\<exists>i\<in>?T. j' < i \<and> k = of_nat (chunkOffset cs i) \<and> d = cs ! i"
        then show "\<exists>i<length cs. j' < i \<and> ?segs ! i \<in> insert (?segs ! j) sent
                    \<and> k = of_nat (chunkOffset cs i) \<and> d = cs ! i"
          by auto
      next
        assume "\<exists>i<length cs. j' < i \<and> ?segs ! i \<in> insert (?segs ! j) sent
                    \<and> k = of_nat (chunkOffset cs i) \<and> d = cs ! i"
        then obtain i' where i': "i' < length cs" "j' < i'" "?segs ! i' \<in> insert (?segs ! j) sent"
          "k = of_nat (chunkOffset cs i')" "d = cs ! i'"
          by blast
        have "?segs ! i' \<noteq> ?segs ! j"
          using layout_inj [OF ne i'(1) j] i'(2) L(2) by auto
        then have "i' \<in> ?T" using i' L(2) by auto
        then show "\<exists>i\<in>?T. j' < i \<and> k = of_nat (chunkOffset cs i) \<and> d = cs ! i"
          using i' by blast
      qed
      then show "fmlookup (chunkMap fh') k = Some d \<longleftrightarrow>
               (\<exists>i<length cs. j' < i \<and> ?segs ! i \<in> insert (?segs ! j) sent
                    \<and> k = of_nat (chunkOffset cs i) \<and> d = cs ! i)"
        using L(8) by simp
    qed
    have "assembled docId cs (insert (?segs ! j) sent) fh'"
      unfolding assembled_def
      by (intro exI [of _ j'] conjI L(3) b1 b2 L(6) L(7) b3)
    then show ?thesis
      using True L(1) \<open>i = j\<close> by (intro exI [of _ fh']) (simp add: placeChunk_def)
  next
    case False
    then have ij: "i \<noteq> j" using off by auto
    then have jlt: "j < i" using ji by simp
    have small: "\<not> 100 < fcard (fmdom (chunkMap fh))"
      using win False by simp
    let ?fh1 = "if chunks fh = None then fh\<lparr>chunks := Some fmempty\<rparr> else fh"
    have cm1: "chunkMap ?fh1 = chunkMap fh"
      by (simp add: chunkMap_def)
    let ?fh' = "?fh1\<lparr>chunks := Some (fmupd (of_nat (chunkOffset cs i)) (cs ! i) (chunkMap ?fh1))\<rparr>"
    have cm': "chunkMap ?fh' = fmupd (of_nat (chunkOffset cs i)) (cs ! i) (chunkMap fh)"
      by (simp add: chunkMap_def)
    have fl': "gfile ?fh' = gfile fh" and off': "offset ?fh' = offset fh"
      by simp_all
    have j: "j < length cs" using jlt i by simp
    have c2: "j < length cs \<longrightarrow> ?segs ! j \<notin> insert (?segs ! i) sent"
      using gap layout_inj [OF ne i j] ij by auto
    have c1: "\<forall>i'<j. ?segs ! i' \<in> insert (?segs ! i) sent"
      using before by simp
    have c3: "\<forall>k d. fmlookup (chunkMap ?fh') k = Some d \<longleftrightarrow>
               (\<exists>i'<length cs. j < i' \<and> ?segs ! i' \<in> insert (?segs ! i) sent
                    \<and> k = of_nat (chunkOffset cs i') \<and> d = cs ! i')"
    proof (intro allI)
      fix k :: int64 and d :: "byte list"
      show "fmlookup (chunkMap ?fh') k = Some d \<longleftrightarrow>
               (\<exists>i'<length cs. j < i' \<and> ?segs ! i' \<in> insert (?segs ! i) sent
                    \<and> k = of_nat (chunkOffset cs i') \<and> d = cs ! i')"
      proof (cases "k = of_nat (chunkOffset cs i)")
        case True
        have "(\<exists>i'<length cs. j < i' \<and> ?segs ! i' \<in> insert (?segs ! i) sent
                    \<and> k = of_nat (chunkOffset cs i') \<and> d = cs ! i') \<longleftrightarrow> d = cs ! i"
        proof
          assume "\<exists>i'<length cs. j < i' \<and> ?segs ! i' \<in> insert (?segs ! i) sent
                    \<and> k = of_nat (chunkOffset cs i') \<and> d = cs ! i'"
          then obtain i' where i': "i' < length cs" "k = of_nat (chunkOffset cs i')" "d = cs ! i'"
            by blast
          have "i' = i"
            using woff_inj [OF ne tot _ _, of i' i] i' i True by simp
          then show "d = cs ! i" using i' by simp
        next
          assume "d = cs ! i"
          then show "\<exists>i'<length cs. j < i' \<and> ?segs ! i' \<in> insert (?segs ! i) sent
                    \<and> k = of_nat (chunkOffset cs i') \<and> d = cs ! i'"
            using i jlt True by blast
        qed
        moreover have "fmlookup (chunkMap ?fh') k = Some (cs ! i)"
          using True by (simp add: cm')
        ultimately show ?thesis
          by (simp only: option.inject) blast
      next
        case kne: False
        have other: "?segs ! i' \<noteq> ?segs ! i"
          if "i' < length cs" "k = of_nat (chunkOffset cs i')" for i'
        proof
          assume "?segs ! i' = ?segs ! i"
          then have "i' = i" using layout_inj [OF ne that(1) i] by simp
          then show False using that(2) kne by simp
        qed
        have "(\<exists>i'<length cs. j < i' \<and> ?segs ! i' \<in> insert (?segs ! i) sent
                    \<and> k = of_nat (chunkOffset cs i') \<and> d = cs ! i') \<longleftrightarrow>
              (\<exists>i'<length cs. j < i' \<and> ?segs ! i' \<in> sent
                    \<and> k = of_nat (chunkOffset cs i') \<and> d = cs ! i')"
        proof
          assume "\<exists>i'<length cs. j < i' \<and> ?segs ! i' \<in> insert (?segs ! i) sent
                    \<and> k = of_nat (chunkOffset cs i') \<and> d = cs ! i'"
          then obtain i' where i': "i' < length cs" "j < i'" "?segs ! i' \<in> insert (?segs ! i) sent"
              "k = of_nat (chunkOffset cs i')" "d = cs ! i'"
            by blast
          from other [OF i'(1) i'(4)] i'(3) have "?segs ! i' \<in> sent" by simp
          with i' show "\<exists>i'<length cs. j < i' \<and> ?segs ! i' \<in> sent
                    \<and> k = of_nat (chunkOffset cs i') \<and> d = cs ! i'"
            by blast
        next
          assume "\<exists>i'<length cs. j < i' \<and> ?segs ! i' \<in> sent
                    \<and> k = of_nat (chunkOffset cs i') \<and> d = cs ! i'"
          then show "\<exists>i'<length cs. j < i' \<and> ?segs ! i' \<in> insert (?segs ! i) sent
                    \<and> k = of_nat (chunkOffset cs i') \<and> d = cs ! i'"
            by blast
        qed
        moreover have "fmlookup (chunkMap ?fh') k = fmlookup (chunkMap fh) k"
          using kne by (simp add: cm')
        ultimately show ?thesis
          using pend by simp
      qed
    qed
    have f2: "gfile ?fh' = \<lparr>gfId = docId, gfWriting = True, gfData = concat (take j cs), gfPos = 0\<rparr>"
      using fl by simp
    have o2: "offset ?fh' = of_nat (chunkOffset cs j)"
      using off by simp
    have asm: "assembled docId cs (insert (?segs ! i) sent) ?fh'"
      unfolding assembled_def
      by (intro exI [of _ j] conjI jN c1 c2 f2 o2 c3)
    have expr: "(let fh1 = ?fh1
                 in if 100 < fcard (fmdom (chunkMap fh1))
                    then (Some (Discarded '' Discard data chunk at offset %d since there are too many out-of-order chunks''),
                          fh1)
                    else (None, fh1\<lparr>chunks := Some (fmupd (of_nat (chunkOffset cs i)) (cs ! i) (chunkMap fh1))\<rparr>))
                = (None, ?fh')"
      using small by (simp only: Let_def cm1 if_False)
    show ?thesis
      by (intro exI [of _ ?fh'] conjI) (simp only: placeChunk_def if_not_P [OF False] expr, rule asm)
  qed
qed

subsection \<open>One call on an assembled handle\<close>

lemma AppendObjectData_placeChunk:
  "AppendObjectData orgID objectType objectID dataReader dataLength offs totalSize isFirstChunk isLastChunk s =
     (let docId = createObjectCollectionID orgID objectType objectID
      in case (if isFirstChunk
               then (let s1 = snd (removeFile s docId)
                     in case createFile s1 docId of
                          Inl err \<Rightarrow> Inl (err, s1)
                        | Inr fh \<Rightarrow> Inr (fh, s1))
               else (case getFileHandle s docId of
                       None \<Rightarrow>
                         Inl (Error ''Failed to append the data at offset %d, the file %s doesn't exist.'', s)
                     | Some fh \<Rightarrow> Inr (fh, s))) of
           Inl (err, s1) \<Rightarrow> (Some err, s1)
         | Inr (fh, s1) \<Rightarrow>
             (case (if 0 < dataLength then Reader_Read dataReader (unat dataLength)
                    else ReadAll dataReader) of
                (data, n, err) \<Rightarrow>
                  if err \<noteq> None
                  then (Some (Error ''Failed to read the data from the dataReader. Error: %s.''), s1)
                  else if of_nat n \<noteq> dataLength \<and> 0 < dataLength
                  then (Some (Error ''Failed to read all the data from the dataReader. Read %d instead of %d.''), s1)
                  else
                    (case placeChunk (dbFault s1) fh offs data of
                       (Some err, fh') \<Rightarrow> (Some err, sharedHandle isFirstChunk docId fh' s1)
                     | (None, fh') \<Rightarrow>
                         if isLastChunk
                         then (case GridFile_Close (deleteFileHandle s1 docId) (gfile fh') of
                                 (Some err, s2) \<Rightarrow> (Some (Error ''Failed to close the file. Error: %s.''), s2)
                               | (None, s2) \<Rightarrow> (None, s2))
                         else (None, putFileHandle s1 docId fh'))))"
  by (simp only: AppendObjectData_def placeChunk_def)

lemma assembled_file:
  "assembled docId cs sent fh \<Longrightarrow> gfWriting (gfile fh) \<and> gfId (gfile fh) = docId"
  unfolding assembled_def by auto

lemma AppendObjectData_next:
  assumes ne: "\<forall>c\<in>set cs. c \<noteq> []" and tot: "length (concat cs) < 2 ^ 63"
    and small: "\<forall>c\<in>set cs. length c < 2 ^ 32"
    and flt: "dbFault s = None"
    and i: "i < length cs" and fresh: "layout 0 cs ! i \<notin> sent"
    and h: "openFiles s (createObjectCollectionID orgID objectType objectID) = Some fh"
    and A: "assembled (createObjectCollectionID orgID objectType objectID) cs sent fh"
    and win: "fcard (fmdom (chunkMap fh)) \<le> 100"
  shows "\<exists>fh'. assembled (createObjectCollectionID orgID objectType objectID) cs
                 (insert (layout 0 cs ! i) sent) fh'
     \<and> AppendObjectData orgID objectType objectID (BytesReader (cs ! i)) (of_nat (length (cs ! i)))
          (of_nat (chunkOffset cs i)) totalSize False isLastChunk s =
        (None,
         if isLastChunk
         then s\<lparr>gridFS := (gridFS s)(createObjectCollectionID orgID objectType objectID \<mapsto> gfData (gfile fh')),
                openFiles := (openFiles s)(createObjectCollectionID orgID objectType objectID := None)\<rparr>
         else putFileHandle s (createObjectCollectionID orgID objectType objectID) fh')"
proof -
  let ?k = "createObjectCollectionID orgID objectType objectID"
  have len: "length (cs ! i) < 2 ^ 32" using small i by simp
  from handle_step [OF ne tot i fresh A] win
  obtain fh' where st: "placeChunk None fh (of_nat (chunkOffset cs i)) (cs ! i) = (None, fh')"
    and A': "assembled ?k cs (insert (layout 0 cs ! i) sent) fh'"
    by blast
  have w: "gfWriting (gfile fh')" "gfId (gfile fh') = ?k"
    using assembled_file [OF A'] by simp_all
  have "AppendObjectData orgID objectType objectID (BytesReader (cs ! i)) (of_nat (length (cs ! i)))
          (of_nat (chunkOffset cs i)) totalSize False isLastChunk s =
        (None,
         if isLastChunk
         then s\<lparr>gridFS := (gridFS s)(?k \<mapsto> gfData (gfile fh')),
                openFiles := (openFiles s)(?k := None)\<rparr>
         else putFileHandle s ?k fh')"
    unfolding AppendObjectData_placeChunk Let_def
    using h flt w
    by (simp add: getFileHandle_def read_chunk [OF len] st
        GridFile_Close_def deleteFileHandle_def)
  then show ?thesis
    using A' by blast
qed

lemma AppendObjectData_first:
  assumes ne: "\<forall>c\<in>set cs. c \<noteq> []" and tot: "length (concat cs) < 2 ^ 63"
    and small: "\<forall>c\<in>set cs. length c < 2 ^ 32"
    and flt: "dbFault s = None"
    and i: "i < length cs"
  shows "\<exists>fh'. assembled (createObjectCollectionID orgID objectType objectID) cs
                 {layout 0 cs ! i} fh'
     \<and> AppendObjectData orgID objectType objectID (BytesReader (cs ! i)) (of_nat (length (cs ! i)))
          (of_nat (chunkOffset cs i)) totalSize True isLastChunk s =
        (None,
         if isLastChunk
         then s\<lparr>gridFS := (gridFS s)(createObjectCollectionID orgID objectType objectID \<mapsto> gfData (gfile fh')),
                openFiles := (openFiles s)(createObjectCollectionID orgID objectType objectID := None)\<rparr>
         else putFileHandle (s\<lparr>gridFS := (gridFS s)(createObjectCollectionID orgID objectType objectID := None)\<rparr>)
                (createObjectCollectionID orgID objectType objectID) fh')"
proof -
  let ?k = "createObjectCollectionID orgID objectType objectID"
  let ?fh0 = "\<lparr>gfile = \<lparr>gfId = ?k, gfWriting = True, gfData = [], gfPos = 0\<rparr>, offset = 0, chunks = None\<rparr>"
  have len: "length (cs ! i) < 2 ^ 32" using small i by simp
  have win: "of_nat (chunkOffset cs i) \<noteq> offset ?fh0 \<longrightarrow> fcard (fmdom (chunkMap ?fh0)) \<le> 100"
    by (simp add: chunkMap_def fcard_fempty)
  have fr: "layout 0 cs ! i \<notin> {}" by simp
  from handle_step [OF ne tot i fr assembled_fresh win]
  obtain fh' where st: "placeChunk None ?fh0 (of_nat (chunkOffset cs i)) (cs ! i) = (None, fh')"
    and A': "assembled ?k cs (insert (layout 0 cs ! i) {}) fh'"
    by blast
  have w: "gfWriting (gfile fh')" "gfId (gfile fh') = ?k"
    using assembled_file [OF A'] by simp_all
  have "AppendObjectData orgID objectType objectID (BytesReader (cs ! i)) (of_nat (length (cs ! i)))
          (of_nat (chunkOffset cs i)) totalSize True isLastChunk s =
        (None,
         if isLastChunk
         then s\<lparr>gridFS := (gridFS s)(?k \<mapsto> gfData (gfile fh')),
                openFiles := (openFiles s)(?k := None)\<rparr>
         else putFileHandle (s\<lparr>gridFS := (gridFS s)(?k := None)\<rparr>) ?k fh')"
    unfolding AppendObjectData_placeChunk Let_def
    using flt w
    by (simp add: removeFile_def createFile_def read_chunk [OF len] st
        GridFile_Close_def deleteFileHandle_def)
  then show ?thesis
    using A' by auto
qed

subsection \<open>Runs of calls\<close>

lemma middle_started: "middle cs = started False cs"
  by (cases cs) (auto simp: middle_def started_def)

lemma started_Cons:
  "started b ((offs, data) # rest) = (offs, data, b, False) # started False rest"
  by (simp add: started_def middle_started)

lemma started_Nil: "started b [] = []"
  by (simp add: started_def)

lemma distinct_layout:
  assumes "\<forall>c\<in>set cs. c \<noteq> []"
  shows "distinct (layout 0 cs)"
  using layout_inj [OF assms] by (auto simp: distinct_conv_nth length_layout)

lemma in_layout:
  assumes "x \<in> set (layout 0 cs)"
  obtains i where "i < length cs" and "layout 0 cs ! i = x"
    and "wire x = (of_nat (chunkOffset cs i), cs ! i)"
proof -
  from assms obtain i where i: "i < length cs" "layout 0 cs ! i = x"
    by (auto simp: in_set_conv_nth length_layout)
  then have "wire x = (of_nat (chunkOffset cs i), cs ! i)"
    using layout_nth [OF i(1), of 0] by (auto simp: wire_def)
  with i show ?thesis by (rule that)
qed

lemma partial_run:
  assumes ne: "\<forall>c\<in>set cs. c \<noteq> []" and tot: "length (concat cs) < 2 ^ 63"
    and small: "\<forall>c\<in>set cs. length c < 2 ^ 32"
    and flt: "dbFault s = None"
    and d: "distinct rest" and sub: "set rest \<subseteq> set (layout 0 cs)" and disj: "set rest \<inter> sent = {}"
    and h: "if isFirst then sent = {} \<and> rest \<noteq> []
            else (\<exists>fh. openFiles s (createObjectCollectionID orgID objectType objectID) = Some fh
                     \<and> assembled (createObjectCollectionID orgID objectType objectID) cs sent fh)"
    and win0: "\<not> isFirst \<and> rest \<noteq> [] \<longrightarrow>
                 window s (createObjectCollectionID orgID objectType objectID) \<le> 100"
    and win: "\<forall>n. 0 < n \<and> n < length rest \<longrightarrow>
                 window (snd (appendCalls orgID objectType objectID totalSize
                                (started isFirst (map wire (take n rest))) s))
                   (createObjectCollectionID orgID objectType objectID) \<le> 100"
  shows "\<exists>s' fh'. appendCalls orgID objectType objectID totalSize (started isFirst (map wire rest)) s
                    = (replicate (length rest) None, s')
           \<and> openFiles s' (createObjectCollectionID orgID objectType objectID) = Some fh'
           \<and> assembled (createObjectCollectionID orgID objectType objectID) cs (sent \<union> set rest) fh'
           \<and> dbFault s' = None
           \<and> gridFS s' = (if isFirst
                           then (gridFS s)(createObjectCollectionID orgID objectType objectID := None)
                           else gridFS s)"
  using flt d sub disj h win0 win
proof (induction rest arbitrary: s sent isFirst)
  case Nil
  then show ?case by (auto simp: started_Nil)
next
  case (Cons x rest)
  let ?k = "createObjectCollectionID orgID objectType objectID"
  note flt = Cons.prems(1) and d = Cons.prems(2) and sub = Cons.prems(3) and disj = Cons.prems(4)
    and h = Cons.prems(5) and win0 = Cons.prems(6) and win = Cons.prems(7)
  from sub have "x \<in> set (layout 0 cs)" by simp
  then obtain i where i: "i < length cs" and xi: "layout 0 cs ! i = x"
    and wx: "wire x = (of_nat (chunkOffset cs i), cs ! i)"
    by (rule in_layout)
  have fresh: "layout 0 cs ! i \<notin> sent"
    using disj xi by auto
  let ?call = "AppendObjectData orgID objectType objectID (BytesReader (cs ! i)) (of_nat (length (cs ! i)))
          (of_nat (chunkOffset cs i)) totalSize isFirst False s"
  have first: "\<exists>fh1. assembled ?k cs (insert x sent) fh1
       \<and> ?call = (None, putFileHandle (if isFirst then s\<lparr>gridFS := (gridFS s)(?k := None)\<rparr> else s) ?k fh1)"
  proof (cases isFirst)
    case True
    then have "sent = {}" using h by simp
    then show ?thesis
      using AppendObjectData_first [OF ne tot small flt i, of orgID objectType objectID totalSize False]
        True xi by auto
  next
    case False
    then obtain fh where fh: "openFiles s ?k = Some fh" "assembled ?k cs sent fh"
      using h by auto
    have "fcard (fmdom (chunkMap fh)) \<le> 100"
      using win0 False fh(1) by (simp add: window_def)
    from AppendObjectData_next [OF ne tot small flt i fresh fh this, of totalSize False]
    show ?thesis
      using False xi by auto
  qed
  then obtain fh1 where A1: "assembled ?k cs (insert x sent) fh1"
    and c1: "?call = (None, putFileHandle (if isFirst then s\<lparr>gridFS := (gridFS s)(?k := None)\<rparr> else s) ?k fh1)"
    by blast
  define s1 where "s1 = putFileHandle (if isFirst then s\<lparr>gridFS := (gridFS s)(?k := None)\<rparr> else s) ?k fh1"
  have unf: "appendCalls orgID objectType objectID totalSize (started isFirst (map wire (x # ys))) s =
       (case appendCalls orgID objectType objectID totalSize (started False (map wire ys)) s1 of
          (errs, s2) \<Rightarrow> (None # errs, s2))" for ys
    using c1 wx by (simp add: started_Cons s1_def)
  have flt1: "dbFault s1 = None"
    using flt by (simp add: putFileHandle_def s1_def)
  have h1: "if False then insert x sent = {} \<and> rest \<noteq> []
            else (\<exists>fh. openFiles s1 ?k = Some fh \<and> assembled ?k cs (insert x sent) fh)"
    using A1 by (simp add: putFileHandle_def s1_def)
  have d1: "distinct rest" and sub1: "set rest \<subseteq> set (layout 0 cs)"
    and disj1: "set rest \<inter> insert x sent = {}"
    using d sub disj by auto
  have win01: "\<not> False \<and> rest \<noteq> [] \<longrightarrow> window s1 ?k \<le> 100"
  proof
    assume "\<not> False \<and> rest \<noteq> []"
    then have "0 < (1::nat) \<and> 1 < length (x # rest)" by (cases rest) simp_all
    from win [rule_format, OF this] show "window s1 ?k \<le> 100"
      using unf [of "[]"] by (simp add: started_Nil)
  qed
  have win1: "\<forall>n. 0 < n \<and> n < length rest \<longrightarrow>
                 window (snd (appendCalls orgID objectType objectID totalSize
                                (started False (map wire (take n rest))) s1)) ?k \<le> 100"
  proof (intro allI impI)
    fix n assume "0 < n \<and> n < length rest"
    then have "0 < Suc n \<and> Suc n < length (x # rest)" by simp
    from win [rule_format, OF this]
    show "window (snd (appendCalls orgID objectType objectID totalSize
                                (started False (map wire (take n rest))) s1)) ?k \<le> 100"
      using unf [of "take n rest"] by (simp split: prod.splits)
  qed
  from Cons.IH [OF flt1 d1 sub1 disj1 h1 win01 win1]
  obtain s' fh' where R:
    "appendCalls orgID objectType objectID totalSize (started False (map wire rest)) s1
       = (replicate (length rest) None, s')"
    "openFiles s' ?k = Some fh'"
    "assembled ?k cs (insert x sent \<union> set rest) fh'"
    "dbFault s' = None"
    "gridFS s' = gridFS s1"
    by auto
  have "appendCalls orgID objectType objectID totalSize (started isFirst (map wire (x # rest))) s
          = (replicate (length (x # rest)) None, s')"
    using unf [of rest] R(1) by simp
  moreover have "assembled ?k cs (sent \<union> set (x # rest)) fh'"
    using R(3) by simp
  moreover have "gridFS s' = (if isFirst then (gridFS s)(?k := None) else gridFS s)"
    using R(5) by (simp add: putFileHandle_def s1_def)
  ultimately show ?case
    using R(2,4) by blast
qed

lemma assembled_all:
  assumes "assembled docId cs (set (layout 0 cs)) fh"
  shows "gfData (gfile fh) = concat cs"
proof -
  from assms obtain j where j: "j \<le> length cs"
    and gap: "j < length cs \<longrightarrow> layout 0 cs ! j \<notin> set (layout 0 cs)"
    and fl: "gfile fh = \<lparr>gfId = docId, gfWriting = True, gfData = concat (take j cs), gfPos = 0\<rparr>"
    unfolding assembled_def by blast
  have "\<not> j < length cs"
    using gap by (auto simp: length_layout)
  with j have "j = length cs" by simp
  with fl show ?thesis by simp
qed

lemma nth_mem_take:
  assumes "distinct xs" and "i < length xs"
  shows "xs ! i \<in> set (take n xs) \<longleftrightarrow> i < n"
proof
  assume "xs ! i \<in> set (take n xs)"
  then obtain m where m: "m < length (take n xs)" "take n xs ! m = xs ! i"
    by (auto simp: in_set_conv_nth)
  then have "xs ! m = xs ! i" "m < length xs" "m < n" by simp_all
  with assms have "m = i" by (simp add: nth_eq_iff_index_eq)
  with \<open>m < n\<close> show "i < n" by simp
next
  assume "i < n"
  with assms(2) have "take n xs ! i = xs ! i" "i < length (take n xs)" by simp_all
  then show "xs ! i \<in> set (take n xs)" by (metis nth_mem)
qed

lemma assembled_prefix_window:
  assumes ne: "\<forall>c\<in>set cs. c \<noteq> []" and n: "n \<le> length cs"
    and A: "assembled docId cs (set (take n (layout 0 cs))) fh"
  shows "fcard (fmdom (chunkMap fh)) = 0"
proof -
  have mem: "layout 0 cs ! i \<in> set (take n (layout 0 cs)) \<longleftrightarrow> i < n" if "i < length cs" for i
    using nth_mem_take [OF distinct_layout [OF ne], of i n] that by (simp add: length_layout)
  from A obtain j where j: "j \<le> length cs"
    and before: "\<forall>i<j. layout 0 cs ! i \<in> set (take n (layout 0 cs))"
    and gap: "j < length cs \<longrightarrow> layout 0 cs ! j \<notin> set (take n (layout 0 cs))"
    and pend: "\<forall>k d. fmlookup (chunkMap fh) k = Some d \<longleftrightarrow>
               (\<exists>i<length cs. j < i \<and> layout 0 cs ! i \<in> set (take n (layout 0 cs))
                    \<and> k = of_nat (chunkOffset cs i) \<and> d = cs ! i)"
    unfolding assembled_def by blast
  have "n \<le> j"
  proof (cases "j < length cs")
    case True
    with gap mem [OF True] show ?thesis by simp
  next
    case False
    with j n show ?thesis by simp
  qed
  have "fmlookup (chunkMap fh) k = None" for k
  proof (cases "fmlookup (chunkMap fh) k")
    case None
    then show ?thesis .
  next
    case (Some d)
    with pend obtain i where "i < length cs" "j < i" "layout 0 cs ! i \<in> set (take n (layout 0 cs))"
      by blast
    with mem [of i] \<open>n \<le> j\<close> show ?thesis by simp
  qed
  then have "chunkMap fh = fmempty"
    by (intro fmap_ext) simp
  then show ?thesis by (simp add: fcard_fempty)
qed

lemma take_upload:
  "n < length xs \<Longrightarrow> take n (upload b xs) = started b (take n xs)"
proof (induction xs arbitrary: n b)
  case Nil
  then show ?case by simp
next
  case (Cons x xs)
  obtain offs data where x: "x = (offs, data)" by (cases x)
  show ?case
  proof (cases n)
    case 0
    then show ?thesis by (simp add: started_Nil)
  next
    case (Suc m)
    with Cons.prems have "m < length xs" by simp
    then have "xs \<noteq> []" by auto
    with Cons.IH [OF \<open>m < length xs\<close>, of False] show ?thesis
      by (simp add: x Suc started_Cons)
  qed
qed

lemma upload_snoc:
  "upload b (xs @ [(offs, data)]) = started b xs @ [(offs, data, b \<and> xs = [], True)]"
proof (induction xs arbitrary: b)
  case Nil
  then show ?case by (simp add: started_Nil)
next
  case (Cons x xs)
  obtain xo xd where x: "x = (xo, xd)" by (cases x)
  show ?case
    using Cons.IH [of False] by (simp add: x started_Cons)
qed

lemma complete_run:
  assumes ne: "\<forall>c\<in>set cs. c \<noteq> []" and tot: "length (concat cs) < 2 ^ 63"
    and small: "\<forall>c\<in>set cs. length c < 2 ^ 32"
    and flt: "dbFault s = None"
    and cs: "cs \<noteq> []"
    and perm: "mset ps = mset (layout 0 cs)"
    and win: "\<forall>n. 0 < n \<and> n < length ps \<longrightarrow>
                 window (snd (appendCalls orgID objectType objectID totalSize
                                (take n (upload True (map wire ps))) s))
                   (createObjectCollectionID orgID objectType objectID) \<le> 100"
  shows "\<exists>s'. appendCalls orgID objectType objectID totalSize (upload True (map wire ps)) s
                 = (replicate (length cs) None, s')
           \<and> gridFS s' (createObjectCollectionID orgID objectType objectID) = Some (concat cs)
           \<and> openFiles s' (createObjectCollectionID orgID objectType objectID) = None"
proof -
  let ?k = "createObjectCollectionID orgID objectType objectID"
  have len: "length ps = length cs"
    using perm by (metis length_layout size_mset)
  have setps: "set ps = set (layout 0 cs)"
    using perm by (metis set_mset_mset)
  have dps: "distinct ps"
    using perm distinct_layout [OF ne] by (metis mset_eq_imp_distinct_iff)
  from cs len have "ps \<noteq> []" by auto
  then obtain init z where ps: "ps = init @ [z]"
    by (metis append_butlast_last_id)
  have "z \<in> set (layout 0 cs)" using setps ps by auto
  then obtain i where i: "i < length cs" and zi: "layout 0 cs ! i = z"
    and wz: "wire z = (of_nat (chunkOffset cs i), cs ! i)"
    by (rule in_layout)
  have up: "upload True (map wire ps) =
       started True (map wire init) @ [(of_nat (chunkOffset cs i), cs ! i, init = [], True)]"
    using upload_snoc [of True "map wire init" "of_nat (chunkOffset cs i)" "cs ! i"]
    by (simp add: ps wz)
  show ?thesis
  proof (cases "init = []")
    case True
    then have all: "{layout 0 cs ! i} = set (layout 0 cs)"
      using setps ps zi by simp
    have "length cs = 1" using len ps True by simp
    from AppendObjectData_first [OF ne tot small flt i, of orgID objectType objectID totalSize True]
    obtain fh' where A: "assembled ?k cs {layout 0 cs ! i} fh'"
      and c: "AppendObjectData orgID objectType objectID (BytesReader (cs ! i)) (of_nat (length (cs ! i)))
          (of_nat (chunkOffset cs i)) totalSize True True s =
        (None, s\<lparr>gridFS := (gridFS s)(?k \<mapsto> gfData (gfile fh')),
                openFiles := (openFiles s)(?k := None)\<rparr>)"
      by auto
    from A all have "gfData (gfile fh') = concat cs"
      using assembled_all by metis
    with c show ?thesis
      using True \<open>length cs = 1\<close> by (simp add: up started_Nil)
  next
    case False
    have d: "distinct init" and sub: "set init \<subseteq> set (layout 0 cs)" and disj: "set init \<inter> {} = {}"
      using dps setps ps by auto
    have h: "if True then ({} :: (nat \<times> byte list) set) = {} \<and> init \<noteq> []
            else (\<exists>fh. openFiles s ?k = Some fh \<and> assembled ?k cs {} fh)"
      using False by simp
    have win0: "\<not> True \<and> init \<noteq> [] \<longrightarrow> window s ?k \<le> 100" by simp
    have pre: "window (snd (appendCalls orgID objectType objectID totalSize
                                (started True (map wire (take n init))) s)) ?k \<le> 100"
      if "0 < n" "n \<le> length init" for n
    proof -
      from that have n: "0 < n \<and> n < length ps" by (simp add: ps)
      have "take n (upload True (map wire ps)) = started True (take n (map wire ps))"
        using n by (intro take_upload) simp
      also have "take n (map wire ps) = map wire (take n init)"
        using that by (simp add: ps take_map)
      finally show ?thesis
        using win [rule_format, OF n] by simp
    qed
    have win': "\<forall>n. 0 < n \<and> n < length init \<longrightarrow>
                 window (snd (appendCalls orgID objectType objectID totalSize
                                (started True (map wire (take n init))) s)) ?k \<le> 100"
      using pre by simp
    from partial_run [OF ne tot small flt d sub disj h win0 win']
    obtain s1 fh1 where
      r1: "appendCalls orgID objectType objectID totalSize (started True (map wire init)) s
             = (replicate (length init) None, s1)"
      and o1: "openFiles s1 ?k = Some fh1"
      and A1: "assembled ?k cs (set init) fh1"
      and f1: "dbFault s1 = None"
      by auto
    have "window s1 ?k \<le> 100"
      using pre [of "length init"] False r1 by simp
    then have w1: "fcard (fmdom (chunkMap fh1)) \<le> 100"
      using o1 by (simp add: window_def)
    have fresh: "layout 0 cs ! i \<notin> set init"
      using dps ps zi by simp
    from AppendObjectData_next [OF ne tot small f1 i fresh o1 A1 w1, of totalSize True]
    obtain fh' where A: "assembled ?k cs (insert (layout 0 cs ! i) (set init)) fh'"
      and c: "AppendObjectData orgID objectType objectID (BytesReader (cs ! i)) (of_nat (length (cs ! i)))
          (of_nat (chunkOffset cs i)) totalSize False True s1 =
        (None, s1\<lparr>gridFS := (gridFS s1)(?k \<mapsto> gfData (gfile fh')),
                openFiles := (openFiles s1)(?k := None)\<rparr>)"
      by auto
    have "insert (layout 0 cs ! i) (set init) = set (layout 0 cs)"
      using setps ps zi by auto
    with A have "gfData (gfile fh') = concat cs"
      using assembled_all by metis
    moreover have "length cs = Suc (length init)"
      using len ps by simp
    ultimately show ?thesis
      using False r1 c by (simp add: up appendCalls_append replicate_append_same)
  qed
qed

lemma sequential_window:
  assumes ne: "\<forall>c\<in>set cs. c \<noteq> []" and tot: "length (concat cs) < 2 ^ 63"
    and small: "\<forall>c\<in>set cs. length c < 2 ^ 32"
    and flt: "dbFault s = None"
  shows "0 < n \<Longrightarrow> n < length cs \<Longrightarrow>
           window (snd (appendCalls orgID objectType objectID totalSize
                          (started True (map wire (take n (layout 0 cs)))) s))
             (createObjectCollectionID orgID objectType objectID) = 0"
proof (induction n rule: less_induct)
  case (less n)
  let ?k = "createObjectCollectionID orgID objectType objectID"
  let ?rest = "take n (layout 0 cs)"
  have d: "distinct ?rest" and sub: "set ?rest \<subseteq> set (layout 0 cs)" and disj: "set ?rest \<inter> {} = {}"
    using distinct_layout [OF ne] by (auto dest: in_set_takeD)
  have "?rest \<noteq> []"
    using less.prems length_layout [of 0 cs] by auto
  then have h: "if True then ({} :: (nat \<times> byte list) set) = {} \<and> ?rest \<noteq> []
            else (\<exists>fh. openFiles s ?k = Some fh \<and> assembled ?k cs {} fh)"
    by simp
  have win0: "\<not> True \<and> ?rest \<noteq> [] \<longrightarrow> window s ?k \<le> 100" by simp
  have win: "\<forall>m. 0 < m \<and> m < length ?rest \<longrightarrow>
                 window (snd (appendCalls orgID objectType objectID totalSize
                                (started True (map wire (take m ?rest))) s)) ?k \<le> 100"
  proof (intro allI impI)
    fix m assume m: "0 < m \<and> m < length ?rest"
    then have "m < n" "m < length cs" "0 < m" by (simp_all add: length_layout)
    from less.IH [OF this(1) this(3) this(2)]
    show "window (snd (appendCalls orgID objectType objectID totalSize
                                (started True (map wire (take m ?rest))) s)) ?k \<le> 100"
      using \<open>m < n\<close> by (simp add: min_def)
  qed
  from partial_run [OF ne tot small flt d sub disj h win0 win]
  obtain s1 fh1 where
    r1: "appendCalls orgID objectType objectID totalSize (started True (map wire ?rest)) s
           = (replicate (length ?rest) None, s1)"
    and o1: "openFiles s1 ?k = Some fh1"
    and A1: "assembled ?k cs (set ?rest) fh1"
    by auto
  have "n \<le> length cs" using less.prems by simp
  from assembled_prefix_window [OF ne this A1]
  show ?case
    using r1 o1 by (simp add: window_def)
qed

lemma sequential_run:
  assumes ne: "\<forall>c\<in>set cs. c \<noteq> []" and tot: "length (concat cs) < 2 ^ 63"
    and small: "\<forall>c\<in>set cs. length c < 2 ^ 32"
    and flt: "dbFault s = None"
    and cs: "cs \<noteq> []"
  shows "\<exists>s'. appendCalls orgID objectType objectID totalSize (upload True (map wire (layout 0 cs))) s
                 = (replicate (length cs) None, s')
           \<and> gridFS s' (createObjectCollectionID orgID objectType objectID) = Some (concat cs)
           \<and> openFiles s' (createObjectCollectionID orgID objectType objectID) = None"
proof -
  have win: "\<forall>n. 0 < n \<and> n < length (layout 0 cs) \<longrightarrow>
                 window (snd (appendCalls orgID objectType objectID totalSize
                                (take n (upload True (map wire (layout 0 cs)))) s))
                   (createObjectCollectionID orgID objectType objectID) \<le> 100"
  proof (intro allI impI)
    fix n assume n: "0 < n \<and> n < length (layout 0 cs)"
    then have "take n (upload True (map wire (layout 0 cs)))
                 = started True (map wire (take n (layout 0 cs)))"
      by (simp add: take_upload take_map)
    then show "window (snd (appendCalls orgID objectType objectID totalSize
                                (take n (upload True (map wire (layout 0 cs)))) s))
                   (createObjectCollectionID orgID objectType objectID) \<le> 100"
      using sequential_window [OF ne tot small flt, of n orgID objectType objectID totalSize] n
      by (simp add: length_layout)
  qed
  show ?thesis
    by (rule complete_run [OF ne tot small flt cs refl win])
qed

text \<open>
  The write of a chunk that is at the handle's offset, as the loop of the source runs
  it: the chunk is written, the offset advances by the bytes written, and a chunk held
  in the out-of-order map under the new offset is taken out of the map and written in
  the same way, until no chunk is held under the offset reached.
\<close>

lemma placeChunk_in_order:
  assumes "gfWriting (gfile fh)"
  shows "placeChunk None fh (offset fh) data =
     (let fh1 = fh\<lparr>gfile := (gfile fh)\<lparr>gfData := gfData (gfile fh) @ data\<rparr>,
                    offset := offset fh + of_nat (length data)\<rparr>
      in case chunks fh of
           None \<Rightarrow> (None, fh1)
         | Some m \<Rightarrow>
             (case fmlookup m (offset fh1) of
                None \<Rightarrow> (None, fh1)
              | Some data' \<Rightarrow>
                  placeChunk None (fh1\<lparr>chunks := Some (fmdrop (offset fh1) m)\<rparr>) (offset fh1) data'))"
  using write_unfold [OF assms, of data]
  by (auto simp: placeChunk_def Let_def split: option.splits)

text \<open>
  C1, for chunks that are not empty. Let \<open>cs\<close> be at least one chunk, none of them
  empty, each shorter than \<open>2^32\<close> bytes (its length is passed as a \<^verbatim>\<open>uint32\<close>) and
  together shorter than \<open>2^63\<close> bytes (offsets are \<^verbatim>\<open>int64\<close>); laid out from 0 they
  cover the range \<open>[0, total)\<close> without gaps. Let \<open>ps\<close> be the same chunks with their
  offsets in any order. On a backend that is reachable, the calls of \<open>ps\<close>, the first
  one with \<^verbatim>\<open>isFirstChunk\<close> and the final one with \<^verbatim>\<open>isLastChunk\<close>, all return
  nil when between two calls the out-of-order window never holds more than 100
  chunks, and the blob they publish is the blob that the calls in offset order
  publish: the chunks concatenated. The last part states how a chunk at the handle's
  offset is appended: it is written, the offset advances by its length, and the
  chunk buffered under the new offset is drained in the same way, repeatedly.
\<close>

theorem AppendObjectData_any_order:
  assumes flt: "dbFault s = None"
    and cs: "cs \<noteq> []"
    and chunks: "\<forall>c\<in>set cs. c \<noteq> [] \<and> length c < 2 ^ 32"
    and tot: "length (concat cs) < 2 ^ 63"
    and perm: "mset ps = mset (layout 0 cs)"
    and win: "\<forall>n. 0 < n \<and> n < length ps \<longrightarrow>
                 window (snd (appendCalls orgID objectType objectID totalSize
                                (take n (upload True (map wire ps))) s))
                   (createObjectCollectionID orgID objectType objectID) \<le> 100"
  shows "fst (appendCalls orgID objectType objectID totalSize (upload True (map wire ps)) s)
           = replicate (length cs) None
       \<and> gridFS (snd (appendCalls orgID objectType objectID totalSize (upload True (map wire ps)) s))
           (createObjectCollectionID orgID objectType objectID)
         = gridFS (snd (appendCalls orgID objectType objectID totalSize
                          (upload True (map wire (layout 0 cs))) s))
             (createObjectCollectionID orgID objectType objectID)
       \<and> gridFS (snd (appendCalls orgID objectType objectID totalSize (upload True (map wire ps)) s))
           (createObjectCollectionID orgID objectType objectID)
         = Some (concat cs)
       \<and> (\<forall>fh data. gfWriting (gfile fh) \<longrightarrow>
            placeChunk None fh (offset fh) data =
              (let fh1 = fh\<lparr>gfile := (gfile fh)\<lparr>gfData := gfData (gfile fh) @ data\<rparr>,
                             offset := offset fh + of_nat (length data)\<rparr>
               in case chunks fh of
                    None \<Rightarrow> (None, fh1)
                  | Some m \<Rightarrow>
                      (case fmlookup m (offset fh1) of
                         None \<Rightarrow> (None, fh1)
                       | Some data' \<Rightarrow>
                           placeChunk None (fh1\<lparr>chunks := Some (fmdrop (offset fh1) m)\<rparr>)
                             (offset fh1) data')))"
proof -
  have ne: "\<forall>c\<in>set cs. c \<noteq> []" and small: "\<forall>c\<in>set cs. length c < 2 ^ 32"
    using chunks by simp_all
  from complete_run [OF ne tot small flt cs perm win]
  obtain s1 where r1:
    "appendCalls orgID objectType objectID totalSize (upload True (map wire ps)) s
       = (replicate (length cs) None, s1)"
    "gridFS s1 (createObjectCollectionID orgID objectType objectID) = Some (concat cs)"
    by blast
  from sequential_run [OF ne tot small flt cs]
  obtain s2 where r2:
    "appendCalls orgID objectType objectID totalSize (upload True (map wire (layout 0 cs))) s
       = (replicate (length cs) None, s2)"
    "gridFS s2 (createObjectCollectionID orgID objectType objectID) = Some (concat cs)"
    by blast
  show ?thesis
    using r1 r2 placeChunk_in_order by simp
qed

lemma any_order_example_window:
  "\<forall>n. 0 < n \<and> n < length [(0, [65, 66, 67, 68]), (8, [73, 74, 75, 76]), (4 :: nat, [69, 70, 71, 72 :: byte])] \<longrightarrow>
         window (snd (appendCalls ''O'' ''T'' ''X'' 12
                        (take n (upload True (map wire
                           [(0, [65, 66, 67, 68]), (8, [73, 74, 75, 76]), (4, [69, 70, 71, 72])])))
                        emptyStore))
           (createObjectCollectionID ''O'' ''T'' ''X'') \<le> 100"
proof (intro allI impI)
  fix n :: nat
  assume "0 < n \<and> n < length [(0, [65, 66, 67, 68]), (8, [73, 74, 75, 76]), (4 :: nat, [69, 70, 71, 72 :: byte])]"
  then have "n = 1 \<or> n = 2" by auto
  moreover have "window (snd (appendCalls ''O'' ''T'' ''X'' 12
                        (take 1 (upload True (map wire
                           [(0, [65, 66, 67, 68]), (8, [73, 74, 75, 76]), (4, [69, 70, 71, 72])])))
                        emptyStore))
           (createObjectCollectionID ''O'' ''T'' ''X'') \<le> 100"
    by code_simp
  moreover have "window (snd (appendCalls ''O'' ''T'' ''X'' 12
                        (take 2 (upload True (map wire
                           [(0, [65, 66, 67, 68]), (8, [73, 74, 75, 76]), (4, [69, 70, 71, 72])])))
                        emptyStore))
           (createObjectCollectionID ''O'' ''T'' ''X'') \<le> 100"
    by code_simp
  ultimately show "window (snd (appendCalls ''O'' ''T'' ''X'' 12
                        (take n (upload True (map wire
                           [(0, [65, 66, 67, 68]), (8, [73, 74, 75, 76]), (4, [69, 70, 71, 72])])))
                        emptyStore))
           (createObjectCollectionID ''O'' ''T'' ''X'') \<le> 100"
    by blast
qed

lemma any_order_example_chunks:
  "dbFault emptyStore = None"
  "[[65, 66, 67, 68], [69, 70, 71, 72], [73, 74, 75, 76 :: byte]] \<noteq> []"
  "\<forall>c\<in>set [[65, 66, 67, 68], [69, 70, 71, 72], [73, 74, 75, 76 :: byte]]. c \<noteq> [] \<and> length c < 2 ^ 32"
  "length (concat [[65, 66, 67, 68], [69, 70, 71, 72], [73, 74, 75, 76 :: byte]]) < 2 ^ 63"
  "mset [(0, [65, 66, 67, 68]), (8, [73, 74, 75, 76]), (4 :: nat, [69, 70, 71, 72 :: byte])]
     = mset (layout 0 [[65, 66, 67, 68], [69, 70, 71, 72], [73, 74, 75, 76]])"
  by (simp add: emptyStore_def, simp, simp, simp, code_simp)

text \<open>
  On spec scenario 2: the chunks at offsets 0, 8 and 4 publish the twelve bytes in
  offset order.
\<close>

theorem AppendObjectData_any_order_witness:
  "fst (appendCalls ''O'' ''T'' ''X'' 12
          (upload True (map wire [(0, [65, 66, 67, 68]), (8, [73, 74, 75, 76]), (4, [69, 70, 71, 72])]))
          emptyStore) = [None, None, None]
   \<and> gridFS (snd (appendCalls ''O'' ''T'' ''X'' 12
          (upload True (map wire [(0, [65, 66, 67, 68]), (8, [73, 74, 75, 76]), (4, [69, 70, 71, 72])]))
          emptyStore)) (createObjectCollectionID ''O'' ''T'' ''X'')
     = Some [65, 66, 67, 68, 69, 70, 71, 72, 73, 74, 75, 76]"
  using AppendObjectData_any_order [OF any_order_example_chunks any_order_example_window, THEN conjunct1]
    AppendObjectData_any_order [OF any_order_example_chunks any_order_example_window,
      THEN conjunct2, THEN conjunct2, THEN conjunct1]
  by simp

text \<open>
  The claim as the spec words it fails when a chunk is empty. The four chunks
  \<open>[65]\<close>, \<open>[66]\<close>, \<open>[]\<close>, \<open>[67]\<close> cover \<open>[0, 3)\<close> at the offsets 0, 1, 2, 2.
  Sent in the order 0, 2 (the chunk \<open>[67]\<close>), 2 (the empty chunk), 1, every call
  returns nil and the window never holds more than one chunk, but the empty chunk
  replaces \<open>[67]\<close> in the out-of-order map, which is keyed by offset, and the blob
  published is \<open>[65, 66]\<close>; in offset order the blob is \<open>[65, 66, 67]\<close>.
\<close>

theorem AppendObjectData_empty_chunk_loses_data:
  "mset [(0, [65]), (2, [67]), (2, []), (1 :: nat, [66 :: byte])] = mset (layout 0 [[65], [66], [], [67]])
   \<and> fst (appendCalls ''O'' ''T'' ''X'' 3
            (upload True (map wire [(0, [65]), (2, [67]), (2, []), (1, [66])])) emptyStore)
       = [None, None, None, None]
   \<and> gridFS (snd (appendCalls ''O'' ''T'' ''X'' 3
            (upload True (map wire [(0, [65]), (2, [67]), (2, []), (1, [66])])) emptyStore))
        (createObjectCollectionID ''O'' ''T'' ''X'') = Some [65, 66]
   \<and> gridFS (snd (appendCalls ''O'' ''T'' ''X'' 3
            (upload True (map wire (layout 0 [[65], [66], [], [67]]))) emptyStore))
        (createObjectCollectionID ''O'' ''T'' ''X'') = Some [65, 66, 67]"
  by code_simp

end
